theory Spec2Isabelle
  imports Main "HOL-Library.Char_ord" "HOL-Library.List_Lexorder" "HOL-Library.Multiset"
begin

section \<open>Data model\<close>

text \<open>
  The repository holds four implementations of the same in-memory file system
  (grok-code-fast-1, sonoma-dusk-alpha, sonoma-sky-alpha, glm-4.5). They share the
  types \<open>FileType\<close>, \<open>VirtualFile\<close> and \<open>FileSystem\<close>; every function below carries
  the name of its variant as a suffix.

  Nodes are Go pointers. A pointer is an address into an explicit store; \<open>None\<close> is the
  nil pointer. A Go map from names to node pointers is an association list with distinct
  keys, \<open>None\<close> being the nil map (reads find nothing, a write panics). Go leaves the
  iteration order of a map unspecified: the order of the list stands for the order the
  runtime happens to take. A byte slice is the list of its bytes.
\<close>

datatype FileType = RegularFile | Directory

type_synonym addr = nat

record VirtualFile =
  Name :: string
  Type :: FileType
  Content :: string
  Children :: "(string \<times> addr) list option"
  Parent :: "addr option"
  Permissions :: nat
  ModTime :: nat
  Size :: int

text \<open>The store: the cell at every address, and the next address \<open>new\<close> hands out.\<close>

record heap =
  cells :: "addr \<Rightarrow> VirtualFile"
  next_free :: addr

record FileSystem =
  Root :: addr
  CurrentDir :: addr
  PrevDir :: "addr option"

text \<open>
  Errors are values. Each constructor stands for one family of messages of the source;
  \<open>Panic\<close> is a run-time panic of the Go program (nil dereference, write to a nil map).
\<close>

datatype error =
    EmptyPath
  | NotFound
  | NotADirectory
  | IsADirectory
  | DirectoryNotEmpty
  | CannotRemoveRoot
  | AlreadyExists
  | NoPreviousDirectory
  | MissingOperand
  | OmittingDirectory
  | Panic

definition alloc :: "heap \<Rightarrow> VirtualFile \<Rightarrow> heap \<times> addr" where
  "alloc h v = (h\<lparr>cells := (cells h)(next_free h := v), next_free := Suc (next_free h)\<rparr>, next_free h)"

definition upd :: "heap \<Rightarrow> addr \<Rightarrow> (VirtualFile \<Rightarrow> VirtualFile) \<Rightarrow> heap" where
  "upd h a f = h\<lparr>cells := (cells h)(a := f (cells h a))\<rparr>"

abbreviation node :: "heap \<Rightarrow> addr \<Rightarrow> VirtualFile" where
  "node h a \<equiv> cells h a"

subsection \<open>Go maps\<close>

definition kids :: "VirtualFile \<Rightarrow> (string \<times> addr) list" where
  "kids v = (case Children v of None \<Rightarrow> [] | Some m \<Rightarrow> m)"

definition lookup :: "VirtualFile \<Rightarrow> string \<Rightarrow> addr option" where
  "lookup v k = map_of (kids v) k"

fun map_put :: "(string \<times> addr) list \<Rightarrow> string \<Rightarrow> addr \<Rightarrow> (string \<times> addr) list" where
  "map_put [] k a = [(k, a)]"
| "map_put ((k', a') # m) k a = (if k' = k then (k, a) # m else (k', a') # map_put m k a)"

definition map_delete :: "(string \<times> addr) list \<Rightarrow> string \<Rightarrow> (string \<times> addr) list" where
  "map_delete m k = filter (\<lambda>(k', _). k' \<noteq> k) m"

text \<open>\<open>delete(v.Children, k)\<close>: a no-op on the nil map.\<close>

definition del_child :: "heap \<Rightarrow> addr \<Rightarrow> string \<Rightarrow> heap" where
  "del_child h a k = upd h a (\<lambda>v. v\<lparr>Children := map_option (\<lambda>m. map_delete m k) (Children v)\<rparr>)"

text \<open>\<open>v.Children[k] = c\<close>: panics on the nil map.\<close>

definition put_child :: "heap \<Rightarrow> addr \<Rightarrow> string \<Rightarrow> addr \<Rightarrow> error + heap" where
  "put_child h a k c =
     (case Children (node h a) of
        None \<Rightarrow> Inl Panic
      | Some m \<Rightarrow> Inr (upd h a (\<lambda>v. v\<lparr>Children := Some (map_put m k c)\<rparr>)))"

subsection \<open>Package strings\<close>

definition HasPrefix :: "string \<Rightarrow> string \<Rightarrow> bool" where
  "HasPrefix s p = (take (length p) s = p)"

definition slash :: char where
  "slash = CHR ''/''"

fun Split :: "string \<Rightarrow> string list" where
  "Split [] = [[]]"
| "Split (c # cs) =
     (if c = CHR ''/'' then [] # Split cs
      else (case Split cs of [] \<Rightarrow> [[c]] | x # xs \<Rightarrow> (c # x) # xs))"

definition TrimLeft :: "string \<Rightarrow> string" where
  "TrimLeft s = dropWhile (\<lambda>c. c = CHR ''/'') s"

definition TrimRight :: "string \<Rightarrow> string" where
  "TrimRight s = rev (dropWhile (\<lambda>c. c = CHR ''/'') (rev s))"

definition Trim :: "string \<Rightarrow> string" where
  "Trim s = TrimRight (TrimLeft s)"

fun Join :: "string list \<Rightarrow> string \<Rightarrow> string" where
  "Join [] sep = []"
| "Join [x] sep = x"
| "Join (x # y # ys) sep = x @ sep @ Join (y # ys) sep"

subsection \<open>Package path/filepath\<close>

text \<open>
  \<open>filepath.Clean\<close>, \<open>Dir\<close>, \<open>Base\<close> and \<open>Split\<close> of the Go standard library, after
  their documentation, for the separator \<open>/\<close>. \<open>Clean\<close> drops empty and \<open>.\<close> elements,
  cancels an inner \<open>..\<close> against the element before it, drops \<open>..\<close> at the start of a
  rooted path and returns \<open>.\<close> for an empty result.
\<close>

fun clean_elems :: "bool \<Rightarrow> string list \<Rightarrow> string list \<Rightarrow> string list" where
  "clean_elems rooted out [] = rev out"
| "clean_elems rooted out (e # es) =
     (if e = [] \<or> e = ''.'' then clean_elems rooted out es
      else if e = ''..'' then
        (case out of
           [] \<Rightarrow> if rooted then clean_elems rooted [] es else clean_elems rooted [''..''] es
         | x # xs \<Rightarrow>
             if x = ''..'' then clean_elems rooted (''..'' # out) es
             else clean_elems rooted xs es)
      else clean_elems rooted (e # out) es)"

definition Clean :: "string \<Rightarrow> string" where
  "Clean path =
     (if path = [] then ''.''
      else
        (let rooted = HasPrefix path ''/'';
             r = Join (clean_elems rooted [] (Split path)) ''/''
         in if rooted then ''/'' @ r else if r = [] then ''.'' else r))"

definition filepath_Split :: "string \<Rightarrow> string \<times> string" where
  "filepath_Split path =
     (let file = rev (takeWhile (\<lambda>c. c \<noteq> CHR ''/'') (rev path))
      in (take (length path - length file) path, file))"

definition Dir :: "string \<Rightarrow> string" where
  "Dir path = Clean (fst (filepath_Split path))"

definition Base :: "string \<Rightarrow> string" where
  "Base path =
     (if path = [] then ''.''
      else
        (let b = snd (filepath_Split (TrimRight path))
         in if b = [] then ''/'' else b))"

section \<open>Path resolution\<close>

subsection \<open>grok-code-fast-1: \<open>FileSystem.ResolvePath\<close>\<close>

text \<open>
  The root of this variant is its own parent. The \<open>~\<close> branch indexes the maps without a
  check: a missing \<open>home\<close> is a nil dereference, a missing \<open>user\<close> returns the nil pointer
  with no error.
\<close>

fun walk_grok :: "heap \<Rightarrow> addr \<Rightarrow> string list \<Rightarrow> error + addr" where
  "walk_grok h current [] = Inr current"
| "walk_grok h current (part # parts) =
     (if part = [] \<or> part = ''.'' then walk_grok h current parts
      else if part = ''..'' then
        (case Parent (node h current) of
           None \<Rightarrow> walk_grok h current parts
         | Some p \<Rightarrow> if p \<noteq> current then walk_grok h p parts else walk_grok h current parts)
      else if Type (node h current) \<noteq> Directory then Inl NotADirectory
      else (case lookup (node h current) part of
              None \<Rightarrow> Inl NotFound
            | Some child \<Rightarrow> walk_grok h child parts))"

definition ResolvePath_grok :: "FileSystem \<Rightarrow> heap \<Rightarrow> string \<Rightarrow> error + addr option" where
  "ResolvePath_grok fs h path =
     (if path = [] then Inr (Some (CurrentDir fs))
      else if HasPrefix path ''/'' then
        (if path = ''/'' then Inr (Some (Root fs))
         else map_sum id Some (walk_grok h (Root fs) (Split (Trim path))))
      else if path = ''~'' then
        (case lookup (node h (Root fs)) ''home'' of
           None \<Rightarrow> Inl Panic
         | Some home \<Rightarrow> Inr (lookup (node h home) ''user''))
      else map_sum id Some (walk_grok h (CurrentDir fs) (Split path)))"

subsection \<open>sonoma-dusk-alpha: \<open>FileSystem.resolvePath\<close>\<close>

fun walk_dusk :: "heap \<Rightarrow> addr \<Rightarrow> string list \<Rightarrow> error + addr" where
  "walk_dusk h current [] = Inr current"
| "walk_dusk h current (part # parts) =
     (if part = [] then walk_dusk h current parts
      else if part = ''.'' then walk_dusk h current parts
      else if part = ''..'' then
        (case Parent (node h current) of
           None \<Rightarrow> walk_dusk h current parts
         | Some p \<Rightarrow> walk_dusk h p parts)
      else (case lookup (node h current) part of
              Some child \<Rightarrow> walk_dusk h child parts
            | None \<Rightarrow> Inl NotFound))"

definition resolvePath_dusk :: "FileSystem \<Rightarrow> heap \<Rightarrow> string \<Rightarrow> error + addr option" where
  "resolvePath_dusk fs h path0 =
     (if path0 = [] then Inl EmptyPath
      else let path = (if path0 = ''~'' then ''/home/user'' else path0) in
        if path = ''-'' then Inr (PrevDir fs)
        else if HasPrefix path ''/'' then
          map_sum id Some (walk_dusk h (Root fs) (Split (TrimLeft path)))
        else map_sum id Some (walk_dusk h (CurrentDir fs) (Split path)))"

subsection \<open>sonoma-sky-alpha: \<open>FileSystem.ResolvePath\<close>\<close>

fun walk_sky :: "heap \<Rightarrow> addr \<Rightarrow> string list \<Rightarrow> error + addr" where
  "walk_sky h current [] = Inr current"
| "walk_sky h current (component # components) =
     (if component = [] then walk_sky h current components
      else if component = ''.'' then walk_sky h current components
      else if component = ''..'' then
        (case Parent (node h current) of
           None \<Rightarrow> walk_sky h current components
         | Some p \<Rightarrow> walk_sky h p components)
      else if Type (node h current) \<noteq> Directory then Inl NotADirectory
      else (case lookup (node h current) component of
              None \<Rightarrow> Inl NotFound
            | Some child \<Rightarrow> walk_sky h child components))"

text \<open>
  \<open>~\<close> calls the function again on \<open>/home/user\<close>, which is neither empty nor \<open>~\<close>: the
  recursion is one level deep and is written out.
\<close>

definition resolve_components_sky :: "FileSystem \<Rightarrow> heap \<Rightarrow> string \<Rightarrow> error + addr" where
  "resolve_components_sky fs h path =
     (case Split path of
        [] \<Rightarrow> Inl Panic
      | c # components \<Rightarrow>
          if c = [] then walk_sky h (Root fs) components
          else walk_sky h (CurrentDir fs) (c # components))"

definition ResolvePath_sky :: "FileSystem \<Rightarrow> heap \<Rightarrow> string \<Rightarrow> error + addr" where
  "ResolvePath_sky fs h path =
     (if path = [] then Inr (CurrentDir fs)
      else if path = ''~'' then resolve_components_sky fs h ''/home/user''
      else resolve_components_sky fs h path)"

subsection \<open>glm-4.5: \<open>VirtualFile.GetPath\<close>, \<open>FileSystem.GetAbsolutePath\<close>, \<open>FileSystem.ResolvePath\<close>\<close>

text \<open>
  \<open>GetPath\<close> follows the parent pointers until it meets nil or a node with the empty
  name. On a store whose parent pointers run in a cycle of named nodes the loop never
  ends: the result \<open>None\<close> is that run. Every operation of this variant that renders a
  path inherits it.
\<close>

partial_function (option) GetPath_loop :: "heap \<Rightarrow> addr option \<Rightarrow> string \<Rightarrow> string option" where
  "GetPath_loop h parent path =
     (case parent of
        None \<Rightarrow> Some path
      | Some p \<Rightarrow>
          if Name (node h p) = [] then Some path
          else GetPath_loop h (Parent (node h p)) (Name (node h p) @ ''/'' @ path))"

definition GetPath_glm :: "heap \<Rightarrow> addr \<Rightarrow> string option" where
  "GetPath_glm h vf =
     (case Parent (node h vf) of
        None \<Rightarrow> Some ''/''
      | Some p \<Rightarrow> map_option (\<lambda>path. ''/'' @ path) (GetPath_loop h (Some p) (Name (node h vf))))"

definition GetAbsolutePath_glm :: "FileSystem \<Rightarrow> heap \<Rightarrow> string \<Rightarrow> string option" where
  "GetAbsolutePath_glm fs h path =
     (if HasPrefix path ''/'' then Some path
      else map_option (\<lambda>currentPath.
             if currentPath = ''/'' then ''/'' @ path else currentPath @ ''/'' @ path)
           (GetPath_glm h (CurrentDir fs)))"

fun walk_glm :: "heap \<Rightarrow> addr \<Rightarrow> string list \<Rightarrow> error + addr" where
  "walk_glm h current [] = Inr current"
| "walk_glm h current (component # components) =
     (if component = [] then walk_glm h current components
      else if component = ''.'' then walk_glm h current components
      else if component = ''..'' then
        (case Parent (node h current) of
           None \<Rightarrow> walk_glm h current components
         | Some p \<Rightarrow> walk_glm h p components)
      else (case lookup (node h current) component of
              None \<Rightarrow> Inl NotFound
            | Some child \<Rightarrow> walk_glm h child components))"

definition ResolvePath_glm :: "FileSystem \<Rightarrow> heap \<Rightarrow> string \<Rightarrow> (error + addr option) option" where
  "ResolvePath_glm fs h path =
     (if path = [] then Some (Inr (Some (CurrentDir fs)))
      else if path = ''~'' then
        (case lookup (node h (Root fs)) ''home'' of
           None \<Rightarrow> Some (Inl NotFound)
         | Some home \<Rightarrow>
             (case lookup (node h home) ''user'' of
                None \<Rightarrow> Some (Inl NotFound)
              | Some user \<Rightarrow> Some (Inr (Some user))))
      else if path = ''-'' then Some (Inr (PrevDir fs))
      else map_option (\<lambda>absPath. map_sum id Some (walk_glm h (Root fs) (Split absPath)))
             (GetAbsolutePath_glm fs h path))"

section \<open>Initial states\<close>

text \<open>
  The zero value of \<open>VirtualFile\<close> fills every cell that has not been allocated.
  \<open>time.Now()\<close> is an input: every constructor and operation that reads the clock takes
  the reading as its argument \<open>now\<close>.
\<close>

definition zero_file :: VirtualFile where
  "zero_file = \<lparr>Name = [], Type = RegularFile, Content = [], Children = None, Parent = None,
                 Permissions = 0, ModTime = 0, Size = 0\<rparr>"

definition empty_heap :: heap where
  "empty_heap = \<lparr>cells = (\<lambda>_. zero_file), next_free = 0\<rparr>"

subsection \<open>sonoma-dusk-alpha: \<open>NewFileSystem\<close> and \<open>NewTerminal\<close>\<close>

definition new_dir_dusk :: "string \<Rightarrow> addr option \<Rightarrow> nat \<Rightarrow> VirtualFile" where
  "new_dir_dusk name parent now =
     zero_file\<lparr>Name := name, Type := Directory, Children := Some [], Parent := parent,
               ModTime := now, Size := 0\<rparr>"

definition new_file_dusk :: "string \<Rightarrow> string \<Rightarrow> addr \<Rightarrow> nat \<Rightarrow> VirtualFile" where
  "new_file_dusk name content parent now =
     zero_file\<lparr>Name := name, Type := RegularFile, Content := content, Parent := Some parent,
               ModTime := now, Size := int (length content)\<rparr>"

definition NewFileSystem_dusk :: "nat \<Rightarrow> FileSystem \<times> heap" where
  "NewFileSystem_dusk now =
     (let (h, root) = alloc empty_heap (new_dir_dusk ''/'' None now)
      in (\<lparr>Root = root, CurrentDir = root, PrevDir = Some root\<rparr>, h))"

definition NewTerminal_dusk :: "nat \<Rightarrow> FileSystem \<times> heap" where
  "NewTerminal_dusk now =
     (let (fs, h0) = NewFileSystem_dusk now;
          root = Root fs;
          (h1, homeDir) = alloc h0 (new_dir_dusk ''home'' (Some root) now);
          (h2, userDir) = alloc h1 (new_dir_dusk ''user'' (Some homeDir) now);
          h3 = upd h2 homeDir (\<lambda>v. v\<lparr>Children := Some (map_put (kids v) ''user'' userDir)\<rparr>);
          h4 = upd h3 root (\<lambda>v. v\<lparr>Children := Some (map_put (kids v) ''home'' homeDir)\<rparr>)
      in (fs\<lparr>CurrentDir := userDir, PrevDir := Some root\<rparr>, h4))"

subsection \<open>sonoma-sky-alpha: \<open>NewDirectory\<close>, \<open>NewFile\<close>, \<open>NewFileSystem\<close>\<close>

definition NewDirectory_sky :: "string \<Rightarrow> addr option \<Rightarrow> nat \<Rightarrow> VirtualFile" where
  "NewDirectory_sky name parent now =
     \<lparr>Name = name, Type = Directory, Content = [], Children = Some [], Parent = parent,
      Permissions = 493, ModTime = now, Size = 0\<rparr>"

definition NewFile_sky :: "string \<Rightarrow> addr option \<Rightarrow> string \<Rightarrow> nat \<Rightarrow> VirtualFile" where
  "NewFile_sky name parent content now =
     \<lparr>Name = name, Type = RegularFile, Content = content, Children = None, Parent = parent,
      Permissions = 420, ModTime = now, Size = int (length content)\<rparr>"

definition NewFileSystem_sky :: "nat \<Rightarrow> FileSystem \<times> heap" where
  "NewFileSystem_sky now =
     (let (h0, root) = alloc empty_heap (NewDirectory_sky [] None now);
          h1 = upd h0 root (\<lambda>v. v\<lparr>Name := ''/''\<rparr>);
          (h2, home) = alloc h1 (NewDirectory_sky ''home'' (Some root) now);
          (h3, user) = alloc h2 (NewDirectory_sky ''user'' (Some home) now);
          h4 = upd h3 root (\<lambda>v. v\<lparr>Children := Some (map_put (kids v) ''home'' home)\<rparr>);
          h5 = upd h4 home (\<lambda>v. v\<lparr>Children := Some (map_put (kids v) ''user'' user)\<rparr>);
          h6 = upd h5 home (\<lambda>v. v\<lparr>Parent := Some root\<rparr>);
          h7 = upd h6 user (\<lambda>v. v\<lparr>Parent := Some home\<rparr>)
      in (\<lparr>Root = root, CurrentDir = user, PrevDir = Some root\<rparr>, h7))"

subsection \<open>glm-4.5: \<open>NewVirtualFile\<close>, \<open>AddChild\<close>, \<open>RemoveChild\<close>, \<open>UpdateContent\<close>, \<open>NewFileSystem\<close>\<close>

definition NewVirtualFile_glm :: "string \<Rightarrow> FileType \<Rightarrow> nat \<Rightarrow> VirtualFile" where
  "NewVirtualFile_glm name fileType now =
     \<lparr>Name = name, Type = fileType, Content = [], Children = Some [], Parent = None,
      Permissions = 420, ModTime = now, Size = 0\<rparr>"

definition AddChild_glm :: "heap \<Rightarrow> addr \<Rightarrow> addr \<Rightarrow> nat \<Rightarrow> error + heap" where
  "AddChild_glm h vf child now =
     (if Type (node h vf) \<noteq> Directory then Inl NotADirectory
      else if lookup (node h vf) (Name (node h child)) \<noteq> None then Inl AlreadyExists
      else
        (let h1 = upd h child (\<lambda>v. v\<lparr>Parent := Some vf\<rparr>)
         in case put_child h1 vf (Name (node h1 child)) child of
              Inl e \<Rightarrow> Inl e
            | Inr h2 \<Rightarrow> Inr (upd h2 vf (\<lambda>v. v\<lparr>ModTime := now\<rparr>))))"

definition RemoveChild_glm :: "heap \<Rightarrow> addr \<Rightarrow> string \<Rightarrow> nat \<Rightarrow> error + heap" where
  "RemoveChild_glm h vf name now =
     (if Type (node h vf) \<noteq> Directory then Inl NotADirectory
      else if lookup (node h vf) name = None then Inl NotFound
      else Inr (upd (del_child h vf name) vf (\<lambda>v. v\<lparr>ModTime := now\<rparr>)))"

definition UpdateContent_glm :: "heap \<Rightarrow> addr \<Rightarrow> string \<Rightarrow> nat \<Rightarrow> heap" where
  "UpdateContent_glm h vf content now =
     (if Type (node h vf) \<noteq> RegularFile then h
      else upd h vf (\<lambda>v. v\<lparr>Content := content, Size := int (length content), ModTime := now\<rparr>))"

text \<open>The constructor ignores the results of \<open>AddChild\<close>; on the two fresh directories they are not errors.\<close>

definition NewFileSystem_glm :: "nat \<Rightarrow> FileSystem \<times> heap" where
  "NewFileSystem_glm now =
     (let (h0, root) = alloc empty_heap (NewVirtualFile_glm [] Directory now);
          (h1, home) = alloc h0 (NewVirtualFile_glm ''home'' Directory now);
          h2 = (case AddChild_glm h1 root home now of Inl _ \<Rightarrow> h1 | Inr h' \<Rightarrow> h');
          (h3, user) = alloc h2 (NewVirtualFile_glm ''user'' Directory now);
          h4 = (case AddChild_glm h3 home user now of Inl _ \<Rightarrow> h3 | Inr h' \<Rightarrow> h')
      in (\<lparr>Root = root, CurrentDir = user, PrevDir = Some user\<rparr>, h4))"

section \<open>Changing directory\<close>

subsection \<open>sonoma-sky-alpha: \<open>FileSystem.Cd\<close>\<close>

definition Cd_sky :: "FileSystem \<Rightarrow> heap \<Rightarrow> string \<Rightarrow> error + FileSystem" where
  "Cd_sky fs h path0 =
     (let path = (if path0 = [] then ''~'' else path0) in
      if path = ''-'' then
        (case PrevDir fs of
           None \<Rightarrow> Inl NoPreviousDirectory
         | Some prev \<Rightarrow> Inr (fs\<lparr>CurrentDir := prev, PrevDir := Some (CurrentDir fs)\<rparr>))
      else
        (case ResolvePath_sky fs h path of
           Inl e \<Rightarrow> Inl e
         | Inr newDir \<Rightarrow>
             if Type (node h newDir) \<noteq> Directory then Inl NotADirectory
             else Inr (fs\<lparr>PrevDir := Some (CurrentDir fs), CurrentDir := newDir\<rparr>)))"

subsection \<open>glm-4.5: \<open>Terminal.Cd\<close>\<close>

text \<open>
  The methods of this variant return nothing and print. A printed error message is
  \<open>Failed\<close> with its kind, any other printed line is \<open>Line\<close>; an operation returns the
  new state and what it printed, in order. A panic ends the process: it is the output
  \<open>Failed Panic\<close> with the state of that moment. \<open>None\<close> is a call that never returns.
\<close>

datatype out = Failed error | Line string

definition Cd_glm :: "FileSystem \<Rightarrow> heap \<Rightarrow> string list \<Rightarrow> (FileSystem \<times> out list) option" where
  "Cd_glm fs h args =
     (case args of
        [] \<Rightarrow>
          (let fs1 = fs\<lparr>PrevDir := Some (CurrentDir fs)\<rparr> in
           case lookup (node h (Root fs1)) ''home'' of
             None \<Rightarrow> Some (fs1, [Failed NotFound])
           | Some home \<Rightarrow>
               (case lookup (node h home) ''user'' of
                  None \<Rightarrow> Some (fs1, [Failed NotFound])
                | Some user \<Rightarrow> Some (fs1\<lparr>CurrentDir := user\<rparr>, [])))
      | [path] \<Rightarrow>
          if path = ''-'' then
            (case PrevDir fs of
               None \<Rightarrow> Some (fs, [Failed NoPreviousDirectory])
             | Some prev \<Rightarrow>
                 (let fs1 = fs\<lparr>CurrentDir := prev, PrevDir := Some (CurrentDir fs)\<rparr>
                  in map_option (\<lambda>p. (fs1, [Line p])) (GetPath_glm h (CurrentDir fs1))))
          else
            (case ResolvePath_glm fs h path of
               None \<Rightarrow> None
             | Some (Inl e) \<Rightarrow> Some (fs, [Failed e])
             | Some (Inr None) \<Rightarrow> Some (fs, [Failed Panic])
             | Some (Inr (Some target)) \<Rightarrow>
                 if Type (node h target) \<noteq> Directory then Some (fs, [Failed NotADirectory])
                 else Some (fs\<lparr>PrevDir := Some (CurrentDir fs), CurrentDir := target\<rparr>, []))
      | _ \<Rightarrow> Some (fs, [Failed MissingOperand]))"

section \<open>sonoma-sky-alpha: the operations\<close>

definition Exists_sky :: "FileSystem \<Rightarrow> heap \<Rightarrow> string \<Rightarrow> bool" where
  "Exists_sky fs h path = (case ResolvePath_sky fs h path of Inl _ \<Rightarrow> False | Inr _ \<Rightarrow> True)"




text \<open>
  \<open>deleteRecursive\<close> ranges over \<open>dir.Children\<close> while its body deletes from the map of
  \<open>dir.Parent\<close>, and the recursive call on a child deletes from the map of the child's
  parent. The loop follows Go: it runs over the keys present when it starts, and a key
  removed before the loop reaches it is not produced. The recursion follows pointers of
  the store, which may form a cycle: the first argument bounds its depth, and \<open>None\<close> is a
  run that exceeds the bound.
\<close>

fun deleteRecursive_sky :: "nat \<Rightarrow> heap \<Rightarrow> addr \<Rightarrow> (error + heap) option"
  and deleteChildren_sky :: "nat \<Rightarrow> heap \<Rightarrow> addr \<Rightarrow> string list \<Rightarrow> (error + heap) option" where
  "deleteRecursive_sky 0 h dir = None"
| "deleteRecursive_sky (Suc n) h dir =
     (case deleteChildren_sky n h dir (map fst (kids (node h dir))) of
        None \<Rightarrow> None
      | Some (Inl e) \<Rightarrow> Some (Inl e)
      | Some (Inr h1) \<Rightarrow>
          (case Parent (node h1 dir) of
             None \<Rightarrow> Some (Inl Panic)
           | Some p \<Rightarrow> Some (Inr (del_child h1 p (Name (node h1 dir))))))"
| "deleteChildren_sky n h dir [] = Some (Inr h)"
| "deleteChildren_sky n h dir (k # ks) =
     (case lookup (node h dir) k of
        None \<Rightarrow> deleteChildren_sky n h dir ks
      | Some child \<Rightarrow>
          (case (if Type (node h child) = Directory then deleteRecursive_sky n h child
                 else Some (Inr h)) of
             None \<Rightarrow> None
           | Some (Inl e) \<Rightarrow> Some (Inl e)
           | Some (Inr h1) \<Rightarrow>
               (case Parent (node h1 dir) of
                  None \<Rightarrow> Some (Inl Panic)
                | Some p \<Rightarrow> deleteChildren_sky n (del_child h1 p (Name (node h1 child))) dir ks)))"

definition Rm_sky :: "nat \<Rightarrow> FileSystem \<Rightarrow> heap \<Rightarrow> string \<Rightarrow> bool \<Rightarrow> (error + heap) option" where
  "Rm_sky fuel fs h path recursive =
     (if path = [] then Some (Inl MissingOperand)
      else
        (case ResolvePath_sky fs h path of
           Inl e \<Rightarrow> Some (Inl e)
         | Inr target \<Rightarrow>
             if target = Root fs then Some (Inl CannotRemoveRoot)
             else
               (case Parent (node h target) of
                  None \<Rightarrow> Some (Inl CannotRemoveRoot)
                | Some parent \<Rightarrow>
                    if Type (node h target) = Directory then
                      (if \<not> recursive then Some (Inl IsADirectory)
                       else deleteRecursive_sky fuel h target)
                    else Some (Inr (del_child h parent (Name (node h target)))))))"

definition Rmdir_sky :: "FileSystem \<Rightarrow> heap \<Rightarrow> string \<Rightarrow> error + heap" where
  "Rmdir_sky fs h path =
     (if path = [] then Inl MissingOperand
      else
        (case ResolvePath_sky fs h path of
           Inl e \<Rightarrow> Inl e
         | Inr target \<Rightarrow>
             if Type (node h target) \<noteq> Directory then Inl NotADirectory
             else if kids (node h target) \<noteq> [] then Inl DirectoryNotEmpty
             else
               (case Parent (node h target) of
                  None \<Rightarrow> Inl CannotRemoveRoot
                | Some parent \<Rightarrow> Inr (del_child h parent (Name (node h target))))))"

text \<open>
  \<open>copyRecursive\<close> ranges over \<open>srcDir.Children\<close>; its body writes only into the map of
  the directory the call has just allocated, so the map it ranges over does not change
  under it. The depth of the recursion is bounded as in \<open>deleteRecursive\<close>.
\<close>

fun copyRecursive_sky :: "nat \<Rightarrow> nat \<Rightarrow> heap \<Rightarrow> addr \<Rightarrow> addr \<Rightarrow> string \<Rightarrow> (error + heap) option"
  and copyChildren_sky :: "nat \<Rightarrow> nat \<Rightarrow> heap \<Rightarrow> addr \<Rightarrow> (string \<times> addr) list \<Rightarrow> (error + heap) option" where
  "copyRecursive_sky 0 now h srcDir destParent destName = None"
| "copyRecursive_sky (Suc n) now h srcDir destParent destName =
     (let (h1, destDir) = alloc h (NewDirectory_sky destName (Some destParent) now) in
      case put_child h1 destParent destName destDir of
        Inl e \<Rightarrow> Some (Inl e)
      | Inr h2 \<Rightarrow> copyChildren_sky n now h2 destDir (kids (node h2 srcDir)))"
| "copyChildren_sky n now h destDir [] = Some (Inr h)"
| "copyChildren_sky n now h destDir ((name, child) # rest) =
     (if Type (node h child) = Directory then
        (case copyRecursive_sky n now h child destDir name of
           None \<Rightarrow> None
         | Some (Inl e) \<Rightarrow> Some (Inl e)
         | Some (Inr h1) \<Rightarrow> copyChildren_sky n now h1 destDir rest)
      else
        (let (h1, newFile) = alloc h (NewFile_sky name (Some destDir) (Content (node h child)) now) in
         case put_child h1 destDir name newFile of
           Inl e \<Rightarrow> Some (Inl e)
         | Inr h2 \<Rightarrow> copyChildren_sky n now h2 destDir rest))"

text \<open>The destination of \<open>Cp\<close>: the directory the copy goes into and the name it gets.\<close>

definition cp_dest_sky :: "FileSystem \<Rightarrow> heap \<Rightarrow> addr \<Rightarrow> string \<Rightarrow> error + (addr option \<times> string)" where
  "cp_dest_sky fs h srcFile dest =
     (if Exists_sky fs h dest then
        (case ResolvePath_sky fs h dest of
           Inl e \<Rightarrow> Inl e
         | Inr destFile \<Rightarrow>
             if Type (node h destFile) = Directory then Inr (Some destFile, Name (node h srcFile))
             else Inr (Parent (node h destFile), Name (node h destFile)))
      else
        (case ResolvePath_sky fs h (Dir dest) of
           Inl e \<Rightarrow> Inl e
         | Inr destParent \<Rightarrow>
             if Type (node h destParent) \<noteq> Directory then Inl NotADirectory
             else Inr (Some destParent, Base dest)))"

definition Cp_sky :: "nat \<Rightarrow> FileSystem \<Rightarrow> heap \<Rightarrow> string \<Rightarrow> string \<Rightarrow> bool \<Rightarrow> nat \<Rightarrow> (error + heap) option" where
  "Cp_sky fuel fs h source dest recursive now =
     (if source = [] \<or> dest = [] then Some (Inl MissingOperand)
      else
        (case ResolvePath_sky fs h source of
           Inl e \<Rightarrow> Some (Inl e)
         | Inr srcFile \<Rightarrow>
             (case cp_dest_sky fs h srcFile dest of
                Inl e \<Rightarrow> Some (Inl e)
              | Inr (destParent, destName) \<Rightarrow>
                  if Type (node h srcFile) = RegularFile then
                    (let (h1, newFile) = alloc h (NewFile_sky destName destParent (Content (node h srcFile)) now) in
                     case destParent of
                       None \<Rightarrow> Some (Inl Panic)
                     | Some dp \<Rightarrow> Some (put_child h1 dp destName newFile))
                  else if \<not> recursive then Some (Inl OmittingDirectory)
                  else
                    (case destParent of
                       None \<Rightarrow> Some (Inl Panic)
                     | Some dp \<Rightarrow> copyRecursive_sky fuel now h srcFile dp destName))))"

text \<open>
  \<open>Ls\<close>. The long format renders each entry with \<open>fmt.Sprintf\<close> and the clock's layout:
  that rendering is the parameter \<open>render\<close>. The names come in the order the map yields
  them; this variant does not sort.
\<close>

definition ls_entries_sky :: "heap \<Rightarrow> addr \<Rightarrow> bool \<Rightarrow> (string \<times> addr) list" where
  "ls_entries_sky h dir all =
     filter (\<lambda>(name, child). \<not> (\<not> all \<and> HasPrefix name ''.'' \<and> name \<noteq> ''.'' \<and> name \<noteq> ''..''))
       (kids (node h dir))"

definition Ls_sky :: "(VirtualFile \<Rightarrow> string \<Rightarrow> string) \<Rightarrow> FileSystem \<Rightarrow> heap \<Rightarrow> string \<Rightarrow> bool \<Rightarrow> bool \<Rightarrow> error + string" where
  "Ls_sky render fs h path0 long all =
     (let path = (if path0 = [] then ''.'' else path0) in
      case ResolvePath_sky fs h path of
        Inl e \<Rightarrow> Inl e
      | Inr dir \<Rightarrow>
          if Type (node h dir) \<noteq> Directory then Inl NotADirectory
          else if long then
            Inr (Join (map (\<lambda>(name, child). render (node h child) name) (ls_entries_sky h dir all))
                   [CHR 0x0A])
          else Inr (Join [Join (map fst (ls_entries_sky h dir all)) '' ''] [CHR 0x0A]))"

section \<open>sonoma-dusk-alpha: the operations\<close>





text \<open>
  \<open>Rm\<close> removes a subdirectory by calling itself on the subdirectory's bare name, which
  \<open>resolvePath\<close> reads against the current directory, and drops the result of that call.
  The loop runs over the keys present when it starts and skips a key that is gone when
  it is reached. The first argument bounds the depth of the recursion; \<open>None\<close> is a run
  that exceeds it. A panic inside the inner call ends the whole call.
\<close>

fun Rm_dusk :: "nat \<Rightarrow> FileSystem \<Rightarrow> heap \<Rightarrow> string \<Rightarrow> bool \<Rightarrow> (error + heap) option"
  and rmChildren_dusk :: "nat \<Rightarrow> FileSystem \<Rightarrow> heap \<Rightarrow> addr \<Rightarrow> string list \<Rightarrow> (error + heap) option" where
  "Rm_dusk 0 fs h path recursive = None"
| "Rm_dusk (Suc n) fs h path recursive =
     (case resolvePath_dusk fs h path of
        Inl e \<Rightarrow> Some (Inl e)
      | Inr None \<Rightarrow> Some (Inl Panic)
      | Inr (Some target) \<Rightarrow>
          (case Parent (node h target) of
             None \<Rightarrow> Some (Inl CannotRemoveRoot)
           | Some parent \<Rightarrow>
               if Type (node h target) = Directory then
                 (if \<not> recursive \<and> kids (node h target) \<noteq> [] then Some (Inl DirectoryNotEmpty)
                  else
                    (case rmChildren_dusk n fs h target (map fst (kids (node h target))) of
                       None \<Rightarrow> None
                     | Some (Inl e) \<Rightarrow> Some (Inl e)
                     | Some (Inr h1) \<Rightarrow> Some (Inr (del_child h1 parent (Name (node h target))))))
               else Some (Inr (del_child h parent (Name (node h target))))))"
| "rmChildren_dusk n fs h target [] = Some (Inr h)"
| "rmChildren_dusk n fs h target (k # ks) =
     (case lookup (node h target) k of
        None \<Rightarrow> rmChildren_dusk n fs h target ks
      | Some child \<Rightarrow>
          if Type (node h child) = Directory then
            (case Rm_dusk n fs h (Name (node h child)) True of
               None \<Rightarrow> None
             | Some (Inl e) \<Rightarrow>
                 if e = Panic then Some (Inl Panic) else rmChildren_dusk n fs h target ks
             | Some (Inr h1) \<Rightarrow> rmChildren_dusk n fs h1 target ks)
          else rmChildren_dusk n fs (del_child h target (Name (node h child))) target ks)"

definition RmDir_dusk :: "nat \<Rightarrow> FileSystem \<Rightarrow> heap \<Rightarrow> string \<Rightarrow> (error + heap) option" where
  "RmDir_dusk fuel fs h path = Rm_dusk fuel fs h path False"

text \<open>
  \<open>Copy\<close> copies a subdirectory by calling itself on the two paths \<open>srcFile.Name/name\<close> and
  \<open>newDir.Name/name\<close>, read against the current directory, and drops the result. The
  loop runs over the keys present when it starts; an entry added to the map under the
  loop is not visited, which is one of the behaviours Go allows.
\<close>

fun Copy_dusk :: "nat \<Rightarrow> FileSystem \<Rightarrow> heap \<Rightarrow> string \<Rightarrow> string \<Rightarrow> bool \<Rightarrow> nat \<Rightarrow> (error + heap) option"
  and copyChildren_dusk :: "nat \<Rightarrow> FileSystem \<Rightarrow> heap \<Rightarrow> addr \<Rightarrow> addr \<Rightarrow> string list \<Rightarrow> nat \<Rightarrow> (error + heap) option" where
  "Copy_dusk 0 fs h src dest recursive now = None"
| "Copy_dusk (Suc n) fs h src dest recursive now =
     (case resolvePath_dusk fs h src of
        Inl e \<Rightarrow> Some (Inl e)
      | Inr srcFile \<Rightarrow>
          (case resolvePath_dusk fs h (Dir dest) of
             Inl e \<Rightarrow> Some (Inl e)
           | Inr None \<Rightarrow> Some (Inl Panic)
           | Inr (Some destParent) \<Rightarrow>
               if Type (node h destParent) \<noteq> Directory then Some (Inl NotADirectory)
               else if lookup (node h destParent) (Base dest) \<noteq> None then Some (Inl AlreadyExists)
               else
                 (case srcFile of
                    None \<Rightarrow> Some (Inl Panic)
                  | Some sf \<Rightarrow>
                      if Type (node h sf) = Directory then
                        (if \<not> recursive then Some (Inl IsADirectory)
                         else
                           (let (h1, newDir) = alloc h (new_dir_dusk (Base dest) (Some destParent) now) in
                            case put_child h1 destParent (Base dest) newDir of
                              Inl e \<Rightarrow> Some (Inl e)
                            | Inr h2 \<Rightarrow>
                                copyChildren_dusk n fs h2 sf newDir (map fst (kids (node h2 sf))) now))
                      else
                        (let (h1, newFile) = alloc h (new_file_dusk (Base dest) (Content (node h sf)) destParent now)
                         in Some (put_child h1 destParent (Base dest) newFile)))))"
| "copyChildren_dusk n fs h srcFile newDir [] now = Some (Inr h)"
| "copyChildren_dusk n fs h srcFile newDir (name # names) now =
     (case lookup (node h srcFile) name of
        None \<Rightarrow> copyChildren_dusk n fs h srcFile newDir names now
      | Some child \<Rightarrow>
          if Type (node h child) = Directory then
            (case Copy_dusk n fs h (Name (node h srcFile) @ ''/'' @ name)
                    (Name (node h newDir) @ ''/'' @ name) True now of
               None \<Rightarrow> None
             | Some (Inl e) \<Rightarrow>
                 if e = Panic then Some (Inl Panic)
                 else copyChildren_dusk n fs h srcFile newDir names now
             | Some (Inr h1) \<Rightarrow> copyChildren_dusk n fs h1 srcFile newDir names now)
          else
            (let (h1, newFile) = alloc h (new_file_dusk name (Content (node h child)) newDir now) in
             case put_child h1 newDir name newFile of
               Inl e \<Rightarrow> Some (Inl e)
             | Inr h2 \<Rightarrow> copyChildren_dusk n fs h2 srcFile newDir names now))"

text \<open>
  \<open>Ls\<close>: the names are filtered, then sorted by \<open>sort.Strings\<close> (bytewise order). The
  rendering of a long-format line is the parameter \<open>render\<close>.
\<close>

definition ls_names_dusk :: "heap \<Rightarrow> addr \<Rightarrow> bool \<Rightarrow> string list" where
  "ls_names_dusk h dir a =
     sort (filter (\<lambda>name. \<not> (\<not> a \<and> HasPrefix name ''.'')) (map fst (kids (node h dir))))"

definition Ls_dusk :: "(VirtualFile \<Rightarrow> string \<Rightarrow> string) \<Rightarrow> FileSystem \<Rightarrow> heap \<Rightarrow> string \<Rightarrow> bool \<Rightarrow> bool \<Rightarrow> error + string" where
  "Ls_dusk render fs h path0 a l =
     (let path = (if path0 = [] then ''.'' else path0) in
      case resolvePath_dusk fs h path of
        Inl e \<Rightarrow> Inl e
      | Inr None \<Rightarrow> Inl Panic
      | Inr (Some dir) \<Rightarrow>
          if Type (node h dir) \<noteq> Directory then Inl NotADirectory
          else Inr (concat (map (\<lambda>name.
                 if l then
                   (case lookup (node h dir) name of
                      None \<Rightarrow> []
                    | Some file \<Rightarrow> render (node h file) name)
                 else name @ [CHR 0x0A]) (ls_names_dusk h dir a))))"

section \<open>glm-4.5: the operations\<close>

text \<open>
  The handlers take the argument list of the command line. \<open>each_arg\<close> is their loop
  over the arguments: the outputs are concatenated, and a panic stops the loop.
\<close>

fun each_arg :: "(heap \<Rightarrow> string \<Rightarrow> (heap \<times> out list) option) \<Rightarrow> heap \<Rightarrow> string list \<Rightarrow> (heap \<times> out list) option" where
  "each_arg f h [] = Some (h, [])"
| "each_arg f h (arg # args) =
     (case f h arg of
        None \<Rightarrow> None
      | Some (h1, o1) \<Rightarrow>
          if Failed Panic \<in> set o1 then Some (h1, o1)
          else (case each_arg f h1 args of
                  None \<Rightarrow> None
                | Some (h2, o2) \<Rightarrow> Some (h2, o1 @ o2)))"

text \<open>\<open>strings.Contains(arg, "/")\<close> with \<open>strings.LastIndex(arg, "/")\<close>: the text before the last slash and the text after it.\<close>

definition Contains_slash :: "string \<Rightarrow> bool" where
  "Contains_slash arg = (CHR ''/'' \<in> set arg)"

definition LastIndex_slash :: "string \<Rightarrow> nat" where
  "LastIndex_slash arg = length arg - Suc (length (takeWhile (\<lambda>c. c \<noteq> CHR ''/'') (rev arg)))"



definition rm_one_glm :: "FileSystem \<Rightarrow> bool \<Rightarrow> nat \<Rightarrow> heap \<Rightarrow> string \<Rightarrow> (heap \<times> out list) option" where
  "rm_one_glm fs recursive now h arg =
     (case ResolvePath_glm fs h arg of
        None \<Rightarrow> None
      | Some (Inl e) \<Rightarrow> Some (h, [Failed e])
      | Some (Inr None) \<Rightarrow> Some (h, [Failed Panic])
      | Some (Inr (Some target)) \<Rightarrow>
          if Type (node h target) = Directory \<and> kids (node h target) \<noteq> [] \<and> \<not> recursive
          then Some (h, [Failed IsADirectory])
          else
            (case Parent (node h target) of
               Some parent \<Rightarrow>
                 (case RemoveChild_glm h parent (Name (node h target)) now of
                    Inl e \<Rightarrow> Some (h, [Failed e])
                  | Inr h1 \<Rightarrow> Some (h1, []))
             | None \<Rightarrow> Some (h, [Failed CannotRemoveRoot])))"

definition Rm_glm :: "FileSystem \<Rightarrow> heap \<Rightarrow> string list \<Rightarrow> nat \<Rightarrow> (heap \<times> out list) option" where
  "Rm_glm fs h args0 now =
     (if args0 = [] then Some (h, [Failed MissingOperand])
      else
        (let recursive = (hd args0 = ''-r'');
             args = (if recursive then tl args0 else args0)
         in if args = [] then Some (h, [Failed MissingOperand])
            else each_arg (rm_one_glm fs recursive now) h args))"

text \<open>
  \<open>copyFileOrDirectory\<close> adds the new node to the destination before it looks at the
  kind of the source, so a directory copied without \<open>-r\<close> leaves an empty directory
  behind its error. The first argument bounds the depth of the recursion.
\<close>

fun copyFileOrDirectory_glm :: "nat \<Rightarrow> nat \<Rightarrow> heap \<Rightarrow> addr \<Rightarrow> addr \<Rightarrow> string \<Rightarrow> bool \<Rightarrow> (heap \<times> error option) option"
  and copyChildren_glm :: "nat \<Rightarrow> nat \<Rightarrow> heap \<Rightarrow> addr \<Rightarrow> (string \<times> addr) list \<Rightarrow> bool \<Rightarrow> (heap \<times> error option) option" where
  "copyFileOrDirectory_glm 0 now h source destDir destName recursive = None"
| "copyFileOrDirectory_glm (Suc n) now h source destDir destName recursive =
     (let (h1, newFile) = alloc h ((NewVirtualFile_glm destName (Type (node h source)) now)
                                     \<lparr>Permissions := Permissions (node h source)\<rparr>) in
      case AddChild_glm h1 destDir newFile now of
        Inl e \<Rightarrow> Some (h1, Some e)
      | Inr h2 \<Rightarrow>
          if Type (node h2 source) = RegularFile then
            Some (UpdateContent_glm h2 newFile (Content (node h2 source)) now, None)
          else if recursive then copyChildren_glm n now h2 newFile (kids (node h2 source)) recursive
          else Some (h2, Some OmittingDirectory))"
| "copyChildren_glm n now h newFile [] recursive = Some (h, None)"
| "copyChildren_glm n now h newFile ((name, child) # rest) recursive =
     (case copyFileOrDirectory_glm n now h child newFile name recursive of
        None \<Rightarrow> None
      | Some (h1, Some e) \<Rightarrow> Some (h1, Some e)
      | Some (h1, None) \<Rightarrow> copyChildren_glm n now h1 newFile rest recursive)"

text \<open>The destination of \<open>Cp\<close>: the directory the copy goes into and the name it gets.\<close>

definition cp_dest_glm :: "FileSystem \<Rightarrow> heap \<Rightarrow> addr option \<Rightarrow> string \<Rightarrow> (error + (addr \<times> string)) option" where
  "cp_dest_glm fs h source destPath =
     (if Contains_slash destPath then
        (case ResolvePath_glm fs h (take (LastIndex_slash destPath) destPath) of
           None \<Rightarrow> None
         | Some (Inl e) \<Rightarrow> Some (Inl e)
         | Some (Inr None) \<Rightarrow> Some (Inl Panic)
         | Some (Inr (Some destDir)) \<Rightarrow>
             if Type (node h destDir) \<noteq> Directory then Some (Inl NotADirectory)
             else Some (Inr (destDir, drop (Suc (LastIndex_slash destPath)) destPath)))
      else
        (case ResolvePath_glm fs h destPath of
           None \<Rightarrow> None
         | Some (Inl _) \<Rightarrow> Some (Inr (CurrentDir fs, destPath))
         | Some (Inr None) \<Rightarrow> Some (Inl Panic)
         | Some (Inr (Some dest)) \<Rightarrow>
             if Type (node h dest) = Directory then
               (case source of
                  None \<Rightarrow> Some (Inl Panic)
                | Some src \<Rightarrow> Some (Inr (dest, Name (node h src))))
             else Some (Inr (CurrentDir fs, destPath))))"

definition Cp_glm :: "nat \<Rightarrow> FileSystem \<Rightarrow> heap \<Rightarrow> string list \<Rightarrow> nat \<Rightarrow> (heap \<times> out list) option" where
  "Cp_glm fuel fs h args0 now =
     (if length args0 < 2 then Some (h, [Failed MissingOperand])
      else
        (let recursive = (hd args0 = ''-r'');
             args = (if recursive then tl args0 else args0)
         in if length args < 2 then Some (h, [Failed MissingOperand])
            else
              (case ResolvePath_glm fs h (args ! 0) of
                 None \<Rightarrow> None
               | Some (Inl e) \<Rightarrow> Some (h, [Failed e])
               | Some (Inr source) \<Rightarrow>
                   (case cp_dest_glm fs h source (args ! 1) of
                      None \<Rightarrow> None
                    | Some (Inl e) \<Rightarrow> Some (h, [Failed e])
                    | Some (Inr (destDir, destName)) \<Rightarrow>
                        if lookup (node h destDir) destName \<noteq> None then Some (h, [Failed AlreadyExists])
                        else
                          (case source of
                             None \<Rightarrow> Some (h, [Failed Panic])
                           | Some src \<Rightarrow>
                               (case copyFileOrDirectory_glm fuel now h src destDir destName recursive of
                                  None \<Rightarrow> None
                                | Some (h1, Some e) \<Rightarrow> Some (h1, [Failed e])
                                | Some (h1, None) \<Rightarrow> Some (h1, [])))))))"

text \<open>
  \<open>Ls\<close> sorts the names by two nested loops that swap \<open>names[i]\<close> and \<open>names[j]\<close> when
  they are out of order. The bound \<open>len(names)\<close> of both loops does not change under
  the swaps; it is the argument \<open>n\<close>.
\<close>

function sort_inner_glm :: "nat \<Rightarrow> nat \<Rightarrow> nat \<Rightarrow> string list \<Rightarrow> string list" where
  "sort_inner_glm i j n names =
     (if j < n then
        sort_inner_glm i (Suc j) n
          (if names ! i > names ! j then names[i := names ! j, j := names ! i] else names)
      else names)"
  by pat_completeness auto
termination
  by (relation "measure (\<lambda>(i, j, n, names). n - j)") auto

declare sort_inner_glm.simps [simp del]

function sort_outer_glm :: "nat \<Rightarrow> nat \<Rightarrow> string list \<Rightarrow> string list" where
  "sort_outer_glm i n names =
     (if i < n then sort_outer_glm (Suc i) n (sort_inner_glm i (Suc i) n names) else names)"
  by pat_completeness auto
termination
  by (relation "measure (\<lambda>(i, n, names). n - i)") auto

declare sort_outer_glm.simps [simp del]

definition sort_names_glm :: "string list \<Rightarrow> string list" where
  "sort_names_glm names = sort_outer_glm 0 (length names) names"

definition ls_names_glm :: "heap \<Rightarrow> addr \<Rightarrow> bool \<Rightarrow> string list" where
  "ls_names_glm h target showHidden =
     sort_names_glm (filter (\<lambda>name. \<not> (\<not> showHidden \<and> HasPrefix name ''.''))
                       (map fst (kids (node h target))))"

text \<open>The flags and the path of \<open>ls\<close>: an argument that starts with \<open>-\<close> sets flags, any other is the path, the last one winning.\<close>

fun ls_args_glm :: "string list \<Rightarrow> bool \<times> bool \<times> string \<Rightarrow> bool \<times> bool \<times> string" where
  "ls_args_glm [] acc = acc"
| "ls_args_glm (arg # args) (longFormat, showHidden, path) =
     (if HasPrefix arg ''-'' then
        ls_args_glm args (longFormat \<or> CHR ''l'' \<in> set arg, showHidden \<or> CHR ''a'' \<in> set arg, path)
      else ls_args_glm args (longFormat, showHidden, arg))"

definition Ls_glm :: "(VirtualFile \<Rightarrow> string \<Rightarrow> string) \<Rightarrow> FileSystem \<Rightarrow> heap \<Rightarrow> string list \<Rightarrow> out list option" where
  "Ls_glm render fs h args =
     (let (longFormat, showHidden, path) = ls_args_glm args (False, False, []) in
      case (if path = [] then Some (Inr (Some (CurrentDir fs))) else ResolvePath_glm fs h path) of
        None \<Rightarrow> None
      | Some (Inl e) \<Rightarrow> Some [Failed e]
      | Some (Inr None) \<Rightarrow> Some [Failed Panic]
      | Some (Inr (Some target)) \<Rightarrow>
          if path \<noteq> [] \<and> Type (node h target) \<noteq> Directory then Some [Line (Name (node h target))]
          else Some (map (\<lambda>name.
                 if longFormat then
                   (case lookup (node h target) name of
                      None \<Rightarrow> Failed Panic
                    | Some file \<Rightarrow> Line (render (node h file) name))
                 else Line name) (ls_names_glm h target showHidden)))"

text \<open>
  \<open>Mv\<close> finds its destination by the same statements as \<open>Cp\<close>. It drops the result of
  \<open>RemoveChild\<close>, renames the source, and adds it to the destination; when that fails it
  adds the renamed source back to its old parent and drops that result too.
\<close>

definition Mv_glm :: "FileSystem \<Rightarrow> heap \<Rightarrow> string list \<Rightarrow> nat \<Rightarrow> (heap \<times> out list) option" where
  "Mv_glm fs h args now =
     (if length args < 2 then Some (h, [Failed MissingOperand])
      else
        (case ResolvePath_glm fs h (args ! 0) of
           None \<Rightarrow> None
         | Some (Inl e) \<Rightarrow> Some (h, [Failed e])
         | Some (Inr source) \<Rightarrow>
             (case cp_dest_glm fs h source (args ! 1) of
                None \<Rightarrow> None
              | Some (Inl e) \<Rightarrow> Some (h, [Failed e])
              | Some (Inr (destDir, destName)) \<Rightarrow>
                  if lookup (node h destDir) destName \<noteq> None then Some (h, [Failed AlreadyExists])
                  else
                    (case source of
                       None \<Rightarrow> Some (h, [Failed Panic])
                     | Some src \<Rightarrow>
                         (case Parent (node h src) of
                            None \<Rightarrow> Some (h, [Failed CannotRemoveRoot])
                          | Some oldParent \<Rightarrow>
                              (let h1 = (case RemoveChild_glm h oldParent (Name (node h src)) now of
                                           Inl _ \<Rightarrow> h | Inr h' \<Rightarrow> h');
                                   h2 = upd h1 src (\<lambda>v. v\<lparr>Name := destName\<rparr>)
                               in case AddChild_glm h2 destDir src now of
                                    Inr h3 \<Rightarrow> Some (h3, [])
                                  | Inl e \<Rightarrow>
                                      (case Parent (node h2 src) of
                                         None \<Rightarrow> Some (h2, [Failed Panic])
                                       | Some back \<Rightarrow>
                                           Some ((case AddChild_glm h2 back src now of
                                                    Inl _ \<Rightarrow> h2 | Inr h4 \<Rightarrow> h4),
                                                 [Failed e]))))))))"

text \<open>
  \<open>Mkdir\<close> without \<open>-p\<close> calls \<open>createSingleDirectory\<close> on each argument. With a slash in the
  path the parent is what the text before the last slash resolves to, else the current
  directory.
\<close>

definition createSingleDirectory_glm :: "FileSystem \<Rightarrow> heap \<Rightarrow> string \<Rightarrow> nat \<Rightarrow> (heap \<times> out list) option" where
  "createSingleDirectory_glm fs h path now =
     (let dirName = (if Contains_slash path then drop (Suc (LastIndex_slash path)) path else path);
          resolved = (if Contains_slash path
                      then ResolvePath_glm fs h (take (LastIndex_slash path) path)
                      else Some (Inr (Some (CurrentDir fs))))
      in case resolved of
           None \<Rightarrow> None
         | Some (Inl e) \<Rightarrow> Some (h, [Failed e])
         | Some (Inr None) \<Rightarrow> Some (h, [Failed Panic])
         | Some (Inr (Some parent)) \<Rightarrow>
             if Contains_slash path \<and> Type (node h parent) \<noteq> Directory
             then Some (h, [Failed NotADirectory])
             else if lookup (node h parent) dirName \<noteq> None then Some (h, [Failed AlreadyExists])
             else
               (let (h1, newDir) = alloc h (NewVirtualFile_glm dirName Directory now) in
                case AddChild_glm h1 parent newDir now of
                  Inl e \<Rightarrow> Some (h1, [Failed e])
                | Inr h2 \<Rightarrow> Some (h2, [])))"

section \<open>grok-code-fast-1: the operations\<close>

definition NewFileSystem_grok :: "nat \<Rightarrow> FileSystem \<times> heap" where
  "NewFileSystem_grok now =
     (let (h0, root) = alloc empty_heap
            \<lparr>Name = ''/'', Type = Directory, Content = [], Children = Some [], Parent = None,
             Permissions = 493, ModTime = now, Size = 0\<rparr>;
          h1 = upd h0 root (\<lambda>v. v\<lparr>Parent := Some root\<rparr>);
          (h2, home) = alloc h1
            \<lparr>Name = ''home'', Type = Directory, Content = [], Children = Some [], Parent = Some root,
             Permissions = 493, ModTime = now, Size = 0\<rparr>;
          h3 = upd h2 root (\<lambda>v. v\<lparr>Children := Some (map_put (kids v) ''home'' home)\<rparr>);
          (h4, user) = alloc h3
            \<lparr>Name = ''user'', Type = Directory, Content = [], Children = Some [], Parent = Some home,
             Permissions = 493, ModTime = now, Size = 0\<rparr>;
          h5 = upd h4 home (\<lambda>v. v\<lparr>Children := Some (map_put (kids v) ''user'' user)\<rparr>)
      in (\<lparr>Root = root, CurrentDir = user, PrevDir = None\<rparr>, h5))"

definition getParentPath_grok :: "string \<Rightarrow> string" where
  "getParentPath_grok path =
     (if path = ''/'' then ''/''
      else
        (let parts = Split (Trim path)
         in if length parts \<le> 1 then ''.'' else Join (butlast parts) ''/''))"

definition getBaseName_grok :: "string \<Rightarrow> string" where
  "getBaseName_grok path = last (Split (Trim path))"

text \<open>
  The commands return a \<open>CommandResult\<close>; its \<open>Error\<close> field is the second component,
  \<open>None\<close> for nil. A command that loops over its paths keeps what it has done for the
  earlier paths when a later one fails.
\<close>

fun rm_args_grok :: "string list \<Rightarrow> bool \<times> string list \<Rightarrow> bool \<times> string list" where
  "rm_args_grok [] acc = acc"
| "rm_args_grok (arg # args) (recursive, paths) =
     (if arg = ''-r'' \<or> arg = ''-rf'' then rm_args_grok args (True, paths)
      else rm_args_grok args (recursive, paths @ [arg]))"

fun rm_paths_grok :: "FileSystem \<Rightarrow> bool \<Rightarrow> heap \<Rightarrow> string list \<Rightarrow> heap \<times> error option" where
  "rm_paths_grok fs recursive h [] = (h, None)"
| "rm_paths_grok fs recursive h (path # paths) =
     (case ResolvePath_grok fs h path of
        Inl e \<Rightarrow> (h, Some e)
      | Inr None \<Rightarrow> (h, Some Panic)
      | Inr (Some target) \<Rightarrow>
          if Type (node h target) = Directory \<and> \<not> recursive then (h, Some IsADirectory)
          else
            (case Parent (node h target) of
               None \<Rightarrow> (h, Some Panic)
             | Some parent \<Rightarrow> rm_paths_grok fs recursive (del_child h parent (Name (node h target))) paths))"

definition cmdRm_grok :: "FileSystem \<Rightarrow> heap \<Rightarrow> string list \<Rightarrow> heap \<times> error option" where
  "cmdRm_grok fs h args =
     (if args = [] then (h, Some MissingOperand)
      else
        (let (recursive, paths) = rm_args_grok args (False, [])
         in rm_paths_grok fs recursive h paths))"

fun rmdir_paths_grok :: "FileSystem \<Rightarrow> heap \<Rightarrow> string list \<Rightarrow> heap \<times> error option" where
  "rmdir_paths_grok fs h [] = (h, None)"
| "rmdir_paths_grok fs h (path # paths) =
     (case ResolvePath_grok fs h path of
        Inl e \<Rightarrow> (h, Some e)
      | Inr None \<Rightarrow> (h, Some Panic)
      | Inr (Some target) \<Rightarrow>
          if Type (node h target) \<noteq> Directory then (h, Some NotADirectory)
          else if kids (node h target) \<noteq> [] then (h, Some DirectoryNotEmpty)
          else
            (case Parent (node h target) of
               None \<Rightarrow> (h, Some Panic)
             | Some parent \<Rightarrow> rmdir_paths_grok fs (del_child h parent (Name (node h target))) paths))"

definition cmdRmdir_grok :: "FileSystem \<Rightarrow> heap \<Rightarrow> string list \<Rightarrow> heap \<times> error option" where
  "cmdRmdir_grok fs h args =
     (if args = [] then (h, Some MissingOperand) else rmdir_paths_grok fs h args)"

text \<open>\<open>cmdMv\<close> detaches the source before it resolves the destination.\<close>

definition cmdMv_grok :: "FileSystem \<Rightarrow> heap \<Rightarrow> string list \<Rightarrow> nat \<Rightarrow> heap \<times> error option" where
  "cmdMv_grok fs h args now =
     (case args of
        [source, dest] \<Rightarrow>
          (case ResolvePath_grok fs h source of
             Inl e \<Rightarrow> (h, Some e)
           | Inr None \<Rightarrow> (h, Some Panic)
           | Inr (Some sourceFile) \<Rightarrow>
               (case Parent (node h sourceFile) of
                  None \<Rightarrow> (h, Some Panic)
                | Some oldParent \<Rightarrow>
                    (let h1 = del_child h oldParent (Name (node h sourceFile)) in
                     case ResolvePath_grok fs h1 (getParentPath_grok dest) of
                       Inl e \<Rightarrow> (h1, Some e)
                     | Inr destParent \<Rightarrow>
                         (let destName = getBaseName_grok dest;
                              h2 = upd h1 sourceFile
                                     (\<lambda>v. v\<lparr>Name := destName, Parent := destParent, ModTime := now\<rparr>)
                          in case destParent of
                               None \<Rightarrow> (h2, Some Panic)
                             | Some dp \<Rightarrow>
                                 (case put_child h2 dp destName sourceFile of
                                    Inl e \<Rightarrow> (h2, Some e)
                                  | Inr h3 \<Rightarrow> (h3, None))))))
      | _ \<Rightarrow> (h, Some MissingOperand))"

section \<open>Notions used in the statements\<close>

text \<open>
  A plain name: one path segment that is none of the special segments of the resolvers.
\<close>

definition plain :: "string \<Rightarrow> bool" where
  "plain n = (n \<noteq> [] \<and> CHR ''/'' \<notin> set n \<and> n \<noteq> ''.'' \<and> n \<noteq> ''..'' \<and> n \<noteq> ''~'' \<and> n \<noteq> ''-'')"




text \<open>
  \<open>reaches_root k h p\<close>: following the parent pointers from \<open>p\<close> meets nil or a node with
  the empty name (the root of glm-4.5) within \<open>k\<close> steps. On a tree it holds for the
  depth of the node.
\<close>

fun reaches_root :: "nat \<Rightarrow> heap \<Rightarrow> addr option \<Rightarrow> bool" where
  "reaches_root k h None = True"
| "reaches_root 0 h (Some p) = (Name (node h p) = [])"
| "reaches_root (Suc k) h (Some p) = (Name (node h p) = [] \<or> reaches_root k h (Parent (node h p)))"

subsection \<open>Example states\<close>

text \<open>
  A store given by the list of its nodes, and the tree
  \<open>/home/user\<close> holding the file \<open>f\<close> (content \<open>old\<close> and a newline), the empty directory
  \<open>d\<close>, and whatever else is passed as \<open>extra\<close> entries of \<open>/home/user\<close> and further \<open>nodes\<close>.
  The session stands in \<open>/home/user\<close>, coming from the root.
\<close>

definition mk_heap :: "VirtualFile list \<Rightarrow> heap" where
  "mk_heap vs = \<lparr>cells = (\<lambda>a. if a < length vs then vs ! a else zero_file), next_free = length vs\<rparr>"

definition dir_node :: "string \<Rightarrow> addr option \<Rightarrow> (string \<times> addr) list \<Rightarrow> VirtualFile" where
  "dir_node name parent entries =
     \<lparr>Name = name, Type = Directory, Content = [], Children = Some entries, Parent = parent,
      Permissions = 493, ModTime = 0, Size = 0\<rparr>"

definition file_node :: "string \<Rightarrow> addr option \<Rightarrow> string \<Rightarrow> VirtualFile" where
  "file_node name parent content =
     \<lparr>Name = name, Type = RegularFile, Content = content, Children = None, Parent = parent,
      Permissions = 420, ModTime = 0, Size = int (length content)\<rparr>"

definition ex_fs :: FileSystem where
  "ex_fs = \<lparr>Root = 0, CurrentDir = 2, PrevDir = Some 0\<rparr>"

definition ex_heap :: "string \<Rightarrow> (string \<times> addr) list \<Rightarrow> VirtualFile list \<Rightarrow> heap" where
  "ex_heap rootName extra nodes =
     mk_heap ([dir_node rootName None [(''home'', 1)],
               dir_node ''home'' (Some 0) [(''user'', 2)],
               dir_node ''user'' (Some 1) ([(''f'', 3), (''d'', 4)] @ extra),
               file_node ''f'' (Some 2) (''old'' @ [CHR 0x0A]),
               dir_node ''d'' (Some 2) []] @ nodes)"

text \<open>A rendering of a long-format line that prints the name alone, for the examples.\<close>

definition name_only :: "VirtualFile \<Rightarrow> string \<Rightarrow> string" where
  "name_only v name = name"

text \<open>The example tree with two more files in \<open>/home/user\<close>, which the map yields as \<open>b\<close>, then \<open>.h\<close>, then \<open>a\<close>.\<close>

definition ex_heap_ls :: "string \<Rightarrow> heap" where
  "ex_heap_ls rootName =
     ex_heap rootName [(''b'', 5), (''.h'', 6), (''a'', 7)]
       [file_node ''b'' (Some 2) [], file_node ''.h'' (Some 2) [], file_node ''a'' (Some 2) []]"

text \<open>
  A tree for recursive removal: \<open>/home/user\<close> holds the directory \<open>d\<close>, the file \<open>x\<close> and the
  directory \<open>s\<close>; \<open>d\<close> holds a file and a directory of the same two names.
\<close>

definition ex_heap_rm :: heap where
  "ex_heap_rm =
     mk_heap [dir_node ''/'' None [(''home'', 1)],
              dir_node ''home'' (Some 0) [(''user'', 2)],
              dir_node ''user'' (Some 1) [(''d'', 3), (''x'', 4), (''s'', 5)],
              dir_node ''d'' (Some 2) [(''x'', 6), (''s'', 7)],
              file_node ''x'' (Some 2) ''keep'',
              dir_node ''s'' (Some 2) [],
              file_node ''x'' (Some 3) [],
              dir_node ''s'' (Some 3) []]"

text \<open>
  glm-4.5 after \<open>mkdir a\<close>, \<open>cd a\<close>, \<open>cd ..\<close> and \<open>mv a a/b\<close> in a fresh session: the store
  and the cursor after each command. A command that does not return leaves the state
  as it was.
\<close>

definition glm_run_heap :: "heap \<Rightarrow> (heap \<times> out list) option \<Rightarrow> heap" where
  "glm_run_heap h r = (case r of None \<Rightarrow> h | Some (h', _) \<Rightarrow> h')"

definition glm_run_fs :: "FileSystem \<Rightarrow> (FileSystem \<times> out list) option \<Rightarrow> FileSystem" where
  "glm_run_fs fs r = (case r of None \<Rightarrow> fs | Some (fs', _) \<Rightarrow> fs')"

definition glm_h1 :: heap where
  "glm_h1 = glm_run_heap (snd (NewFileSystem_glm 0))
              (createSingleDirectory_glm (fst (NewFileSystem_glm 0)) (snd (NewFileSystem_glm 0)) ''a'' 0)"

definition glm_fs1 :: FileSystem where
  "glm_fs1 = glm_run_fs (fst (NewFileSystem_glm 0)) (Cd_glm (fst (NewFileSystem_glm 0)) glm_h1 [''a''])"

definition glm_fs2 :: FileSystem where
  "glm_fs2 = glm_run_fs glm_fs1 (Cd_glm glm_fs1 glm_h1 [''..''])"

definition glm_h2 :: heap where
  "glm_h2 = glm_run_heap glm_h1 (Mv_glm glm_fs2 glm_h1 [''a'', ''a/b''] 0)"

section \<open>Basic facts\<close>

lemmas go_defs = HasPrefix_def Let_def lookup_def kids_def Dir_def Base_def filepath_Split_def Clean_def
  TrimRight_def TrimLeft_def Trim_def alloc_def put_child_def del_child_def upd_def map_delete_def

lemmas ex_defs = ex_fs_def ex_heap_def mk_heap_def dir_node_def file_node_def

lemma node_upd: "node (upd h a f) b = (if b = a then f (node h a) else node h b)"
  by (simp add: upd_def)

lemma next_free_upd: "next_free (upd h a f) = next_free h"
  by (simp add: upd_def)


lemma map_of_map_delete: "map_of (map_delete m k) k' = (if k' = k then None else map_of m k')"
  by (induction m) (auto simp: map_delete_def)

lemma Split_no_slash: "CHR ''/'' \<notin> set n \<Longrightarrow> Split n = [n]"
  by (induction n) auto

lemma filepath_Split_no_slash: "CHR ''/'' \<notin> set n \<Longrightarrow> filepath_Split n = ([], n)"
proof -
  assume a: "CHR ''/'' \<notin> set n"
  then have tw: "takeWhile (\<lambda>c. c \<noteq> CHR ''/'') (rev n) = rev n"
    by (auto simp: takeWhile_eq_all_conv)
  show ?thesis unfolding filepath_Split_def Let_def tw by simp
qed

lemma plain_HasPrefix: "plain n \<Longrightarrow> \<not> HasPrefix n ''/''"
  by (cases n) (auto simp: plain_def HasPrefix_def)


lemma resolvePath_dusk_plain:
  "plain n \<Longrightarrow> resolvePath_dusk fs h n =
     (case lookup (node h (CurrentDir fs)) n of None \<Rightarrow> Inl NotFound | Some f \<Rightarrow> Inr (Some f))"
  using plain_HasPrefix[of n]
  by (auto simp: plain_def resolvePath_dusk_def Split_no_slash Let_def split: option.splits)

lemma Dir_no_slash: "CHR ''/'' \<notin> set n \<Longrightarrow> Dir n = ''.''"
  by (simp add: Dir_def filepath_Split_no_slash Clean_def)

lemma TrimRight_no_slash: "CHR ''/'' \<notin> set n \<Longrightarrow> TrimRight n = n"
proof -
  assume a: "CHR ''/'' \<notin> set n"
  have "dropWhile (\<lambda>c. c = CHR ''/'') (rev n) = rev n"
    using a by (cases "rev n") auto
  then show ?thesis by (simp add: TrimRight_def)
qed

lemma Base_plain: "plain n \<Longrightarrow> Base n = n"
  by (simp add: plain_def Base_def TrimRight_no_slash filepath_Split_no_slash)

lemma resolvePath_dusk_dot: "resolvePath_dusk fs h ''.'' = Inr (Some (CurrentDir fs))"
  by (simp add: resolvePath_dusk_def HasPrefix_def)



lemma sky_start: "NewFileSystem_sky now =
  (\<lparr>Root = 0, CurrentDir = 2, PrevDir = Some 0\<rparr>,
   \<lparr>cells = (\<lambda>_. zero_file)
      (0 := NewDirectory_sky ''/'' None now\<lparr>Children := Some [(''home'', 1)]\<rparr>,
       1 := NewDirectory_sky ''home'' (Some 0) now\<lparr>Children := Some [(''user'', 2)]\<rparr>,
       2 := NewDirectory_sky ''user'' (Some 1) now),
    next_free = 3\<rparr>)"
  by (simp add: NewFileSystem_sky_def alloc_def upd_def empty_heap_def Let_def
      kids_def NewDirectory_sky_def numeral_2_eq_2 numeral_3_eq_3 fun_upd_twist)

lemma dusk_start: "NewTerminal_dusk now =
  (\<lparr>Root = 0, CurrentDir = 2, PrevDir = Some 0\<rparr>,
   \<lparr>cells = (\<lambda>_. zero_file)
      (0 := new_dir_dusk ''/'' None now\<lparr>Children := Some [(''home'', 1)]\<rparr>,
       1 := new_dir_dusk ''home'' (Some 0) now\<lparr>Children := Some [(''user'', 2)]\<rparr>,
       2 := new_dir_dusk ''user'' (Some 1) now),
    next_free = 3\<rparr>)"
  by (simp add: NewTerminal_dusk_def NewFileSystem_dusk_def alloc_def upd_def empty_heap_def Let_def
      kids_def new_dir_dusk_def numeral_2_eq_2 numeral_3_eq_3 fun_upd_twist)

section \<open>Resolving the empty path\<close>

text \<open>
  C6, as stated: for every cursor, resolving the empty path succeeds and returns the
  current directory. sonoma-dusk-alpha rejects the empty path by an explicit guard, here
  in the state a fresh session starts in.
\<close>

theorem C6_dusk_empty_path_fails:
  "resolvePath_dusk (fst (NewTerminal_dusk 0)) (snd (NewTerminal_dusk 0)) [] = Inl EmptyPath"
  by (simp add: resolvePath_dusk_def)

text \<open>
  C6, amended. In grok-code-fast-1 and sonoma-sky-alpha the empty path resolves to the
  current directory, whatever the cursor and the tree; in sonoma-dusk-alpha it is the
  error \<open>empty path\<close>.
\<close>

theorem C6_empty_path:
  "ResolvePath_grok fs h [] = Inr (Some (CurrentDir fs))
   \<and> ResolvePath_sky fs h [] = Inr (CurrentDir fs)
   \<and> resolvePath_dusk fs h [] = Inl EmptyPath"
  by (simp add: ResolvePath_grok_def ResolvePath_sky_def resolvePath_dusk_def)

section \<open>\<open>cd -\<close>\<close>

lemma GetPath_loop_returns:
  "reaches_root k h parent \<Longrightarrow> \<exists>s. GetPath_loop h parent path = Some s"
proof (induction k arbitrary: parent path)
  case 0
  then show ?case by (cases parent) (auto simp: GetPath_loop.simps)
next
  case (Suc k)
  show ?case
  proof (cases parent)
    case None
    then show ?thesis by (simp add: GetPath_loop.simps)
  next
    case (Some p)
    show ?thesis
    proof (cases "Name (node h p) = []")
      case True
      with Some show ?thesis by (simp add: GetPath_loop.simps)
    next
      case False
      with Suc.prems Some have "reaches_root k h (Parent (node h p))" by simp
      from Suc.IH[OF this] obtain s where
        "GetPath_loop h (Parent (node h p)) (Name (node h p) @ ''/'' @ path) = Some s" by blast
      with Some False show ?thesis by (subst GetPath_loop.simps) simp
    qed
  qed
qed

lemma GetPath_glm_returns:
  "reaches_root k h (Parent (node h a)) \<Longrightarrow> \<exists>s. GetPath_glm h a = Some s"
  using GetPath_loop_returns[of k h "Parent (node h a)" "Name (node h a)"]
  by (cases "Parent (node h a)") (auto simp: GetPath_glm_def)

lemma GetPath_loop_self_parent:
  assumes "GetPath_loop h parent path = Some y"
  shows "\<forall>a. parent = Some a \<longrightarrow> Parent (node h a) = Some a \<longrightarrow> Name (node h a) = []"
proof (rule GetPath_loop.raw_induct
    [where P = "\<lambda>h parent path y. \<forall>a. parent = Some a \<longrightarrow> Parent (node h a) = Some a \<longrightarrow> Name (node h a) = []",
     OF _ assms])
  fix loop :: "heap \<Rightarrow> addr option \<Rightarrow> string \<Rightarrow> string option" and h parent path y
  assume IH: "\<And>h parent path y. loop h parent path = Some y \<Longrightarrow>
                \<forall>a. parent = Some a \<longrightarrow> Parent (node h a) = Some a \<longrightarrow> Name (node h a) = []"
    and body: "(case parent of None \<Rightarrow> Some path
                | Some p \<Rightarrow> if Name (node h p) = [] then Some path
                            else loop h (Parent (node h p)) (Name (node h p) @ ''/'' @ path)) = Some y"
  show "\<forall>a. parent = Some a \<longrightarrow> Parent (node h a) = Some a \<longrightarrow> Name (node h a) = []"
  proof (intro allI impI)
    fix a assume a: "parent = Some a" "Parent (node h a) = Some a"
    show "Name (node h a) = []"
    proof (rule ccontr)
      assume n: "Name (node h a) \<noteq> []"
      with a body have "loop h (Some a) (Name (node h a) @ ''/'' @ path) = Some y" by simp
      from IH [OF this] a n show False by blast
    qed
  qed
qed

lemma GetPath_loop_never_returns:
  assumes "Parent (node h a) = Some a" and "Name (node h a) \<noteq> []"
  shows "GetPath_loop h (Some a) path = None"
  using GetPath_loop_self_parent [of h "Some a" path] assms
  by (cases "GetPath_loop h (Some a) path") auto

lemma glm_start: "NewFileSystem_glm now =
  (\<lparr>Root = 0, CurrentDir = 2, PrevDir = Some 2\<rparr>,
   \<lparr>cells = (\<lambda>_. zero_file)
      (0 := \<lparr>Name = [], Type = Directory, Content = [], Children = Some [(''home'', 1)],
             Parent = None, Permissions = 420, ModTime = now, Size = 0\<rparr>,
       1 := \<lparr>Name = ''home'', Type = Directory, Content = [], Children = Some [(''user'', 2)],
             Parent = Some 0, Permissions = 420, ModTime = now, Size = 0\<rparr>,
       2 := \<lparr>Name = ''user'', Type = Directory, Content = [], Children = Some [],
             Parent = Some 1, Permissions = 420, ModTime = now, Size = 0\<rparr>),
    next_free = 3\<rparr>)"
  by (simp add: NewFileSystem_glm_def NewVirtualFile_glm_def AddChild_glm_def alloc_def upd_def
      put_child_def lookup_def empty_heap_def Let_def kids_def numeral_2_eq_2 numeral_3_eq_3 fun_upd_twist)

lemma glm_mkdir_a: "createSingleDirectory_glm (fst (NewFileSystem_glm 0)) (snd (NewFileSystem_glm 0)) ''a'' 0 =
  Some (\<lparr>cells = (\<lambda>_. zero_file)
      (0 := \<lparr>Name = [], Type = Directory, Content = [], Children = Some [(''home'', 1)],
             Parent = None, Permissions = 420, ModTime = 0, Size = 0\<rparr>,
       1 := \<lparr>Name = ''home'', Type = Directory, Content = [], Children = Some [(''user'', 2)],
             Parent = Some 0, Permissions = 420, ModTime = 0, Size = 0\<rparr>,
       2 := \<lparr>Name = ''user'', Type = Directory, Content = [], Children = Some [(''a'', 3)],
             Parent = Some 1, Permissions = 420, ModTime = 0, Size = 0\<rparr>,
       3 := \<lparr>Name = ''a'', Type = Directory, Content = [], Children = Some [],
             Parent = Some 2, Permissions = 420, ModTime = 0, Size = 0\<rparr>),
    next_free = 4\<rparr>, [])"
  by (simp add: glm_start createSingleDirectory_glm_def Contains_slash_def
      NewVirtualFile_glm_def AddChild_glm_def alloc_def upd_def put_child_def lookup_def kids_def Let_def
      fun_upd_twist)

lemmas glm_h1 = glm_h1_def [unfolded glm_mkdir_a glm_run_heap_def, simplified]

lemma glm_cd_a: "Cd_glm (fst (NewFileSystem_glm 0)) glm_h1 [''a'']
                   = Some (\<lparr>Root = 0, CurrentDir = 3, PrevDir = Some 2\<rparr>, [])"
  by (simp add: glm_start glm_h1 Cd_glm_def ResolvePath_glm_def
      GetAbsolutePath_glm_def GetPath_glm_def GetPath_loop.simps HasPrefix_def lookup_def kids_def)

lemmas glm_fs1 = glm_fs1_def [unfolded glm_cd_a glm_run_fs_def, simplified]

lemma glm_cd_up: "Cd_glm glm_fs1 glm_h1 [''..'']
                   = Some (\<lparr>Root = 0, CurrentDir = 2, PrevDir = Some 3\<rparr>, [])"
  by (simp add: glm_fs1 glm_h1 Cd_glm_def ResolvePath_glm_def
      GetAbsolutePath_glm_def GetPath_glm_def GetPath_loop.simps HasPrefix_def lookup_def kids_def)

lemmas glm_fs2 = glm_fs2_def [unfolded glm_cd_up glm_run_fs_def, simplified]

lemma glm_mv_a: "Mv_glm glm_fs2 glm_h1 [''a'', ''a/b''] 0 =
  Some (\<lparr>cells = (\<lambda>_. zero_file)
      (0 := \<lparr>Name = [], Type = Directory, Content = [], Children = Some [(''home'', 1)],
             Parent = None, Permissions = 420, ModTime = 0, Size = 0\<rparr>,
       1 := \<lparr>Name = ''home'', Type = Directory, Content = [], Children = Some [(''user'', 2)],
             Parent = Some 0, Permissions = 420, ModTime = 0, Size = 0\<rparr>,
       2 := \<lparr>Name = ''user'', Type = Directory, Content = [], Children = Some [],
             Parent = Some 1, Permissions = 420, ModTime = 0, Size = 0\<rparr>,
       3 := \<lparr>Name = ''b'', Type = Directory, Content = [], Children = Some [(''b'', 3)],
             Parent = Some 3, Permissions = 420, ModTime = 0, Size = 0\<rparr>),
    next_free = 4\<rparr>, [])"
  by (simp add: glm_fs2 glm_h1 Mv_glm_def cp_dest_glm_def ResolvePath_glm_def
      GetAbsolutePath_glm_def GetPath_glm_def GetPath_loop.simps HasPrefix_def lookup_def kids_def
      Contains_slash_def LastIndex_slash_def RemoveChild_glm_def AddChild_glm_def del_child_def
      put_child_def upd_def map_delete_def Let_def fun_upd_twist)

lemmas glm_h2 = glm_h2_def [unfolded glm_mv_a glm_run_heap_def, simplified]

text \<open>
  C9. With a previous directory set, \<open>cd -\<close> of sonoma-sky-alpha returns the cursor with the
  current and the previous directory exchanged, and a second \<open>cd -\<close> returns the first
  cursor, whatever the store holds. glm-4.5 makes the same exchange and then prints the path
  of the new current directory: its call returns exactly when \<open>GetPath\<close> of that directory
  does, and then with the exchanged cursor, so that a second call gives back the first
  cursor. \<open>GetPath\<close> returns for a directory whose parent pointers lead to the root within
  some number of steps.
\<close>

theorem C9_cd_dash_exchanges:
  assumes "PrevDir fs = Some prev"
  shows "Cd_sky fs h ''-'' = Inr (fs\<lparr>CurrentDir := prev, PrevDir := Some (CurrentDir fs)\<rparr>)
       \<and> Cd_sky (fs\<lparr>CurrentDir := prev, PrevDir := Some (CurrentDir fs)\<rparr>) h ''-'' = Inr fs
       \<and> Cd_glm fs h [''-'']
           = map_option (\<lambda>p. (fs\<lparr>CurrentDir := prev, PrevDir := Some (CurrentDir fs)\<rparr>, [Line p]))
               (GetPath_glm h prev)
       \<and> Cd_glm (fs\<lparr>CurrentDir := prev, PrevDir := Some (CurrentDir fs)\<rparr>) h [''-'']
           = map_option (\<lambda>p. (fs, [Line p])) (GetPath_glm h (CurrentDir fs))
       \<and> (reaches_root k h (Parent (node h prev)) \<longrightarrow> GetPath_glm h prev \<noteq> None)
       \<and> (reaches_root k h (Parent (node h (CurrentDir fs))) \<longrightarrow> GetPath_glm h (CurrentDir fs) \<noteq> None)"
proof -
  have restore: "fs\<lparr>PrevDir := Some prev\<rparr> = fs"
    using assms by simp
  have "reaches_root k h (Parent (node h a)) \<longrightarrow> GetPath_glm h a \<noteq> None" for a
    using GetPath_glm_returns [of k h a] by auto
  then show ?thesis
    using assms by (simp add: Cd_sky_def Cd_glm_def restore)
qed

theorem C9_cd_dash_exchanges_witness:
  "Cd_sky ex_fs (ex_heap [] [] []) ''-'' = Inr \<lparr>Root = 0, CurrentDir = 0, PrevDir = Some 2\<rparr>
   \<and> Cd_sky \<lparr>Root = 0, CurrentDir = 0, PrevDir = Some 2\<rparr> (ex_heap [] [] []) ''-'' = Inr ex_fs
   \<and> Cd_glm ex_fs (ex_heap [] [] []) [''-'']
        = Some (\<lparr>Root = 0, CurrentDir = 0, PrevDir = Some 2\<rparr>, [Line ''/''])
   \<and> Cd_glm \<lparr>Root = 0, CurrentDir = 0, PrevDir = Some 2\<rparr> (ex_heap [] [] []) [''-'']
        = Some (ex_fs, [Line ''/home/user''])
   \<and> GetPath_glm (ex_heap [] [] []) 0 \<noteq> None
   \<and> GetPath_glm (ex_heap [] [] []) 2 \<noteq> None"
proof -
  have a: "PrevDir ex_fs = Some 0"
    by (simp add: ex_fs_def)
  have b: "reaches_root 2 (ex_heap [] [] []) (Parent (node (ex_heap [] [] []) 0))"
    by (simp add: ex_defs)
  have c: "reaches_root 2 (ex_heap [] [] []) (Parent (node (ex_heap [] [] []) 2))"
    by (simp add: ex_defs numeral_2_eq_2)
  have d: "ex_fs\<lparr>CurrentDir := 0, PrevDir := Some 2\<rparr>
             = \<lparr>Root = 0, CurrentDir = 0, PrevDir = Some 2\<rparr>"
    by (simp add: ex_fs_def)
  have e: "CurrentDir ex_fs = 2"
    by (simp add: ex_fs_def)
  have p0: "GetPath_glm (ex_heap [] [] []) 0 = Some ''/''"
    by (simp add: ex_defs GetPath_glm_def)
  have p2: "GetPath_glm (ex_heap [] [] []) 2 = Some ''/home/user''"
    by (simp add: ex_defs GetPath_glm_def GetPath_loop.simps)
  show ?thesis
    using C9_cd_dash_exchanges [OF a, of "ex_heap [] [] []" 2] b c
    by (simp add: d e p0 p2)
qed

text \<open>
  C9, the run that does not return. glm-4.5, fresh session: \<open>mkdir a\<close>, \<open>cd a\<close>, \<open>cd ..\<close>, \<open>mv a a/b\<close> all succeed. \<open>mv\<close> does not
  refuse a destination inside the source, so the directory becomes its own parent under
  the name \<open>b\<close>, while the cursor still holds it as the previous directory. The loop of
  \<open>GetPath\<close> then never reaches a node with an empty name, and \<open>cd -\<close> does not return.
\<close>

theorem C9_glm_cd_dash_never_returns:
  "createSingleDirectory_glm (fst (NewFileSystem_glm 0)) (snd (NewFileSystem_glm 0)) ''a'' 0
     = Some (glm_h1, [])
   \<and> Cd_glm (fst (NewFileSystem_glm 0)) glm_h1 [''a''] = Some (glm_fs1, [])
   \<and> Cd_glm glm_fs1 glm_h1 [''..''] = Some (glm_fs2, [])
   \<and> Mv_glm glm_fs2 glm_h1 [''a'', ''a/b''] 0 = Some (glm_h2, [])
   \<and> PrevDir glm_fs2 = Some 3
   \<and> Parent (node glm_h2 3) = Some 3
   \<and> Cd_glm glm_fs2 glm_h2 [''-''] = None"
proof -
  have s1: "createSingleDirectory_glm (fst (NewFileSystem_glm 0)) (snd (NewFileSystem_glm 0)) ''a'' 0
              = Some (glm_h1, [])"
    by (simp add: glm_mkdir_a glm_h1)
  have s2: "Cd_glm (fst (NewFileSystem_glm 0)) glm_h1 [''a''] = Some (glm_fs1, [])"
    by (simp add: glm_cd_a glm_fs1)
  have s3: "Cd_glm glm_fs1 glm_h1 [''..''] = Some (glm_fs2, [])"
    by (simp add: glm_cd_up glm_fs2)
  have s4: "Mv_glm glm_fs2 glm_h1 [''a'', ''a/b''] 0 = Some (glm_h2, [])"
    by (simp add: glm_mv_a glm_h2)
  have s5: "PrevDir glm_fs2 = Some 3"
    by (simp add: glm_fs2)
  have s6: "Parent (node glm_h2 3) = Some 3" and n: "Name (node glm_h2 3) \<noteq> []"
    by (simp_all add: glm_h2)
  then have "GetPath_glm glm_h2 3 = None"
    by (simp add: GetPath_glm_def GetPath_loop_never_returns)
  then have s7: "Cd_glm glm_fs2 glm_h2 [''-''] = None"
    using s5 by (simp add: Cd_glm_def)
  show ?thesis
    by (intro conjI s1 s2 s3 s4 s5 s6 s7)
qed

section \<open>\<open>touch\<close> on an existing entry\<close>









section \<open>Writing text to a file\<close>

subsection \<open>Paths and walks\<close>































subsection \<open>The written node\<close>







section \<open>Listing a directory\<close>

lemma swap_props:
  assumes "i < j" "j < length (xs::string list)"
  shows "length (xs[i := xs ! j, j := xs ! i]) = length xs"
    and "take i (xs[i := xs ! j, j := xs ! i]) = take i xs"
    and "mset (drop i (xs[i := xs ! j, j := xs ! i])) = mset (drop i xs)"
proof -
  show "length (xs[i := xs ! j, j := xs ! i]) = length xs" by simp
  show "take i (xs[i := xs ! j, j := xs ! i]) = take i xs" using assms by simp
  let ?ls = "drop i xs"
  have d: "drop i (xs[i := xs ! j, j := xs ! i]) = ?ls[0 := ?ls ! (j - i), (j - i) := ?ls ! 0]"
    using assms by (simp add: drop_update_swap)
  have "mset (?ls[0 := ?ls ! (j - i), (j - i) := ?ls ! 0]) = mset ?ls"
    using assms by (intro mset_swap) auto
  with d show "mset (drop i (xs[i := xs ! j, j := xs ! i])) = mset (drop i xs)" by simp
qed

lemma sort_inner_glm_props:
  "i < j \<Longrightarrow> j \<le> length xs \<Longrightarrow> n = length xs \<Longrightarrow> (\<forall>k. i < k \<and> k < j \<longrightarrow> xs ! i \<le> xs ! k) \<Longrightarrow>
   length (sort_inner_glm i j n xs) = length xs
   \<and> take i (sort_inner_glm i j n xs) = take i xs
   \<and> mset (drop i (sort_inner_glm i j n xs)) = mset (drop i xs)
   \<and> (\<forall>k. i < k \<and> k < n \<longrightarrow> sort_inner_glm i j n xs ! i \<le> sort_inner_glm i j n xs ! k)"
proof (induction i j n xs rule: sort_inner_glm.induct)
  case (1 i j n names)
  show ?case
  proof (cases "j < n")
    case False
    with "1.prems" have "j = n" by simp
    have "sort_inner_glm i j n names = names"
      using False by (subst sort_inner_glm.simps) simp
    with \<open>j = n\<close> "1.prems" show ?thesis by auto
  next
    case True
    let ?xs' = "if names ! i > names ! j then names[i := names ! j, j := names ! i] else names"
    have jl: "j < length names" using True "1.prems" by simp
    have len: "length ?xs' = length names" by simp
    have tk: "take i ?xs' = take i names" using swap_props(2)[OF "1.prems"(1) jl] by simp
    have ms: "mset (drop i ?xs') = mset (drop i names)"
      using swap_props(3)[OF "1.prems"(1) jl] by simp
    have inv: "\<forall>k. i < k \<and> k < Suc j \<longrightarrow> ?xs' ! i \<le> ?xs' ! k"
    proof (intro allI impI)
      fix k assume k: "i < k \<and> k < Suc j"
      show "?xs' ! i \<le> ?xs' ! k"
      proof (cases "names ! i > names ! j")
        case sw: True
        have il: "i < length names" using "1.prems"(1) jl by simp
        have xi: "?xs' ! i = names ! j" using sw "1.prems"(1) il jl by simp
        show ?thesis
        proof (cases "k = j")
          case True
          then have "?xs' ! k = names ! i" using sw jl by simp
          with xi sw show ?thesis by simp
        next
          case False
          then have kj: "k < j" using k by simp
          then have "?xs' ! k = names ! k" using sw k by simp
          moreover have "names ! i \<le> names ! k" using "1.prems"(4) k kj by simp
          ultimately show ?thesis using xi sw by simp
        qed
      next
        case ns: False
        show ?thesis
        proof (cases "k = j")
          case True
          with ns show ?thesis by simp
        next
          case False
          then have "k < j" using k by simp
          with "1.prems"(4) k ns show ?thesis by simp
        qed
      qed
    qed
    have IH: "length (sort_inner_glm i (Suc j) n ?xs') = length ?xs'
      \<and> take i (sort_inner_glm i (Suc j) n ?xs') = take i ?xs'
      \<and> mset (drop i (sort_inner_glm i (Suc j) n ?xs')) = mset (drop i ?xs')
      \<and> (\<forall>k. i < k \<and> k < n \<longrightarrow> sort_inner_glm i (Suc j) n ?xs' ! i \<le> sort_inner_glm i (Suc j) n ?xs' ! k)"
      using "1.IH"[OF True] "1.prems"(1,3) jl len inv by simp
    have unf: "sort_inner_glm i j n names = sort_inner_glm i (Suc j) n ?xs'"
      using True by (subst sort_inner_glm.simps) simp
    show ?thesis unfolding unf using IH len tk ms by simp
  qed
qed


lemma in_set_drop_nth:
  "x \<in> set (drop n xs) \<longleftrightarrow> (\<exists>i. n \<le> i \<and> i < length xs \<and> xs ! i = x)"
proof
  assume "x \<in> set (drop n xs)"
  then obtain j where j: "j < length (drop n xs)" "drop n xs ! j = x"
    by (auto simp: in_set_conv_nth)
  then have "n \<le> n + j \<and> n + j < length xs \<and> xs ! (n + j) = x" by auto
  then show "\<exists>i. n \<le> i \<and> i < length xs \<and> xs ! i = x" by blast
next
  assume "\<exists>i. n \<le> i \<and> i < length xs \<and> xs ! i = x"
  then obtain i where i: "n \<le> i" "i < length xs" "xs ! i = x" by blast
  then have "i - n < length (drop n xs)" "drop n xs ! (i - n) = x" by auto
  then show "x \<in> set (drop n xs)" by (metis nth_mem)
qed

lemma sort_outer_glm_props:
  "i \<le> length xs \<Longrightarrow> n = length xs \<Longrightarrow> sorted (take i xs) \<Longrightarrow>
   (\<forall>x \<in> set (take i xs). \<forall>y \<in> set (drop i xs). x \<le> y) \<Longrightarrow>
   sorted (sort_outer_glm i n xs) \<and> mset (sort_outer_glm i n xs) = mset xs"
proof (induction i n xs rule: sort_outer_glm.induct)
  case (1 i n names)
  show ?case
  proof (cases "i < n")
    case False
    then have "sort_outer_glm i n names = names"
      by (subst sort_outer_glm.simps) simp
    moreover have "take i names = names" using False "1.prems" by simp
    ultimately show ?thesis using "1.prems"(3) by simp
  next
    case True
    let ?r = "sort_inner_glm i (Suc i) n names"
    have il: "i < length names" using True "1.prems" by simp
    have P: "length ?r = length names \<and> take i ?r = take i names
             \<and> mset (drop i ?r) = mset (drop i names)
             \<and> (\<forall>k. i < k \<and> k < n \<longrightarrow> ?r ! i \<le> ?r ! k)"
    proof -
      have vac: "\<forall>k. i < k \<and> k < Suc i \<longrightarrow> names ! i \<le> names ! k" by auto
      have a: "i < Suc i" by simp
      have b: "Suc i \<le> length names" using il by simp
      show ?thesis using sort_inner_glm_props[OF a b "1.prems"(2) vac] .
    qed
    then have len: "length ?r = length names" and tk: "take i ?r = take i names"
      and ms: "mset (drop i ?r) = mset (drop i names)"
      and mn: "\<forall>k. i < k \<and> k < n \<longrightarrow> ?r ! i \<le> ?r ! k" by auto
    have st: "set (drop i ?r) = set (drop i names)" using ms by (rule mset_eq_setD)
    have ri: "?r ! i \<in> set (drop i ?r)"
      using il len by (auto simp: in_set_drop_nth)
    have s1: "sorted (take (Suc i) ?r)"
    proof -
      have "take (Suc i) ?r = take i ?r @ [?r ! i]"
        using il len by (simp add: take_Suc_conv_app_nth)
      moreover have "\<forall>y \<in> set (take i ?r). y \<le> ?r ! i"
        using "1.prems"(4) ri st tk by auto
      ultimately show ?thesis using "1.prems"(3) tk by (simp add: sorted_append)
    qed
    have s2: "\<forall>x \<in> set (take (Suc i) ?r). \<forall>y \<in> set (drop (Suc i) ?r). x \<le> y"
    proof (intro ballI)
      fix x y assume x: "x \<in> set (take (Suc i) ?r)" and y: "y \<in> set (drop (Suc i) ?r)"
      from y obtain k where k: "Suc i \<le> k" "k < length ?r" "?r ! k = y"
        by (auto simp: in_set_drop_nth)
      have "y \<in> set (drop i ?r)"
        unfolding in_set_drop_nth using k by (intro exI[of _ k]) simp
      then have yd: "y \<in> set (drop i names)" using st by simp
      have "take (Suc i) ?r = take i ?r @ [?r ! i]"
        using il len by (simp add: take_Suc_conv_app_nth)
      with x have "x \<in> set (take i names) \<or> x = ?r ! i" using tk by auto
      then show "x \<le> y"
      proof
        assume "x \<in> set (take i names)"
        with yd "1.prems"(4) show ?thesis by blast
      next
        assume "x = ?r ! i"
        with mn k len "1.prems"(2) show ?thesis by auto
      qed
    qed
    have IH: "sorted (sort_outer_glm (Suc i) n ?r) \<and> mset (sort_outer_glm (Suc i) n ?r) = mset ?r"
      using "1.IH"[OF True] il len "1.prems"(2) s1 s2 by simp
    have "mset ?r = mset (take i ?r) + mset (drop i ?r)"
      by (metis append_take_drop_id mset_append)
    also have "\<dots> = mset (take i names) + mset (drop i names)" using tk ms by simp
    also have "\<dots> = mset names" by (metis append_take_drop_id mset_append)
    finally have mr: "mset ?r = mset names" .
    have unf: "sort_outer_glm i n names = sort_outer_glm (Suc i) n ?r"
      using True by (subst sort_outer_glm.simps) simp
    show ?thesis unfolding unf using IH mr by simp
  qed
qed

lemma sort_names_glm_sort: "sort_names_glm xs = sort xs"
proof -
  have "sorted (sort_names_glm xs) \<and> mset (sort_names_glm xs) = mset xs"
    unfolding sort_names_glm_def using sort_outer_glm_props[of 0 xs "length xs"] by simp
  then show ?thesis by (metis properties_for_sort)
qed

lemma sort_mset_cong: "mset xs = mset ys \<Longrightarrow> sort xs = sort (ys::string list)"
  by (metis properties_for_sort sorted_sort mset_sort)

lemma Ls_dusk_short:
  "p \<noteq> [] \<Longrightarrow> resolvePath_dusk fs h p = Inr (Some dir) \<Longrightarrow> Type (node h dir) = Directory \<Longrightarrow>
   Ls_dusk render fs h p a False = Inr (concat (map (\<lambda>n. n @ [CHR 0x0A]) (ls_names_dusk h dir a)))"
  by (simp add: Ls_dusk_def)

lemma ls_args_glm_path:
  "\<not> HasPrefix p ''-'' \<Longrightarrow> ls_args_glm [p] (False, False, []) = (False, False, p)"
  "\<not> HasPrefix p ''-'' \<Longrightarrow> ls_args_glm [''-a'', p] (False, False, []) = (False, True, p)"
  by (simp_all add: HasPrefix_def)

lemma Ls_glm_short:
  "p \<noteq> [] \<Longrightarrow> \<not> HasPrefix p ''-'' \<Longrightarrow> ResolvePath_glm fs h p = Some (Inr (Some dir)) \<Longrightarrow>
   Type (node h dir) = Directory \<Longrightarrow>
   Ls_glm render fs h [p] = Some (map Line (ls_names_glm h dir False))
   \<and> Ls_glm render fs h [''-a'', p] = Some (map Line (ls_names_glm h dir True))"
  by (simp add: Ls_glm_def HasPrefix_def)

lemma Ls_sky_short:
  "p \<noteq> [] \<Longrightarrow> ResolvePath_sky fs h p = Inr dir \<Longrightarrow> Type (node h dir) = Directory \<Longrightarrow>
   Ls_sky render fs h p False all = Inr (Join (map fst (ls_entries_sky h dir all)) '' '')"
  by (simp add: Ls_sky_def)

lemma ls_entries_sky_names:
  "map fst (ls_entries_sky h dir all)
     = filter (\<lambda>n. all \<or> \<not> HasPrefix n ''.'' \<or> n = ''.'' \<or> n = ''..'') (map fst (kids (node h dir)))"
  by (auto simp: ls_entries_sky_def filter_map comp_def split_beta intro!: arg_cong[where f = "map fst"] filter_cong)

text \<open>
  C8, as stated: the entries \<open>ls\<close> returns are sorted by name. sonoma-sky-alpha lists
  the names in the order its map yields them: where the map of \<open>/home/user\<close> yields
  \<open>f\<close>, \<open>d\<close>, \<open>b\<close>, \<open>.h\<close>, \<open>a\<close>, the listing is \<open>f d b a\<close>.
\<close>

theorem C8_sky_ls_not_sorted:
  "Ls_sky name_only ex_fs (ex_heap_ls ''/'') ''.'' False False = Inr ''f d b a''
   \<and> \<not> sorted [''f'', ''d'', ''b'', ''a'']"
  by (simp add: ex_heap_ls_def ex_defs Ls_sky_def ResolvePath_sky_def resolve_components_sky_def
      ls_entries_sky_def go_defs)

text \<open>
  C8, amended. In sonoma-dusk-alpha and glm-4.5, for every directory, \<open>ls\<close> lists the
  names of its children, leaving out those that begin with \<open>.\<close> unless hidden entries
  are asked for, sorted bytewise, so two maps with the same names give the same listing;
  the short format prints them one per line. In sonoma-sky-alpha the short format prints
  the same names, and also any entry named \<open>.\<close> or \<open>..\<close>, separated by blanks, in the
  order the map yields them.
\<close>

theorem C8_ls_listing:
  "sorted (ls_names_dusk h dir a)
   \<and> mset (ls_names_dusk h dir a)
       = mset (filter (\<lambda>n. a \<or> \<not> HasPrefix n ''.'') (map fst (kids (node h dir))))
   \<and> sorted (ls_names_glm h dir a)
   \<and> mset (ls_names_glm h dir a)
       = mset (filter (\<lambda>n. a \<or> \<not> HasPrefix n ''.'') (map fst (kids (node h dir))))
   \<and> (mset (map fst (kids (node h dir))) = mset (map fst (kids (node h2 dir2))) \<longrightarrow>
        ls_names_dusk h dir a = ls_names_dusk h2 dir2 a
      \<and> ls_names_glm h dir a = ls_names_glm h2 dir2 a)
   \<and> (p \<noteq> [] \<longrightarrow> resolvePath_dusk fs h p = Inr (Some dir) \<longrightarrow> Type (node h dir) = Directory \<longrightarrow>
        Ls_dusk render fs h p a False
          = Inr (concat (map (\<lambda>n. n @ [CHR 0x0A]) (ls_names_dusk h dir a))))
   \<and> (p \<noteq> [] \<longrightarrow> \<not> HasPrefix p ''-'' \<longrightarrow> ResolvePath_glm fs h p = Some (Inr (Some dir)) \<longrightarrow>
        Type (node h dir) = Directory \<longrightarrow>
        Ls_glm render fs h [p] = Some (map Line (ls_names_glm h dir False))
      \<and> Ls_glm render fs h [''-a'', p] = Some (map Line (ls_names_glm h dir True)))
   \<and> (p \<noteq> [] \<longrightarrow> ResolvePath_sky fs h p = Inr dir \<longrightarrow> Type (node h dir) = Directory \<longrightarrow>
        Ls_sky render fs h p False a = Inr (Join (map fst (ls_entries_sky h dir a)) '' '')
      \<and> map fst (ls_entries_sky h dir a)
          = filter (\<lambda>n. a \<or> \<not> HasPrefix n ''.'' \<or> n = ''.'' \<or> n = ''..'')
              (map fst (kids (node h dir))))"
proof -
  have f: "(\<lambda>name. \<not> (\<not> a \<and> HasPrefix name ''.'')) = (\<lambda>n. a \<or> \<not> HasPrefix n ''.'')"
    by auto
  have d: "ls_names_dusk h dir a
             = sort (filter (\<lambda>n. a \<or> \<not> HasPrefix n ''.'') (map fst (kids (node h dir))))"
    by (simp add: ls_names_dusk_def f)
  have g: "ls_names_glm h dir a = ls_names_dusk h dir a"
    by (simp add: ls_names_glm_def ls_names_dusk_def sort_names_glm_sort)
  have d2: "ls_names_dusk h2 dir2 a
             = sort (filter (\<lambda>n. a \<or> \<not> HasPrefix n ''.'') (map fst (kids (node h2 dir2))))"
    by (simp add: ls_names_dusk_def f)
  have g2: "ls_names_glm h2 dir2 a = ls_names_dusk h2 dir2 a"
    by (simp add: ls_names_glm_def ls_names_dusk_def sort_names_glm_sort)
  have det: "mset (map fst (kids (node h dir))) = mset (map fst (kids (node h2 dir2))) \<Longrightarrow>
             ls_names_dusk h dir a = ls_names_dusk h2 dir2 a"
  proof -
    assume e: "mset (map fst (kids (node h dir))) = mset (map fst (kids (node h2 dir2)))"
    have "mset (filter (\<lambda>n. a \<or> \<not> HasPrefix n ''.'') (map fst (kids (node h dir))))
          = mset (filter (\<lambda>n. a \<or> \<not> HasPrefix n ''.'') (map fst (kids (node h2 dir2))))"
      using e by (metis mset_filter)
    then show ?thesis unfolding d d2 by (rule sort_mset_cong)
  qed
  show ?thesis
    using det
    by (simp add: g g2 d d2 [symmetric] Ls_dusk_short Ls_glm_short Ls_sky_short ls_entries_sky_names)
qed

theorem C8_ls_listing_witness:
  "ls_names_dusk (ex_heap_ls ''/'') 2 False = [''a'', ''b'', ''d'', ''f'']
   \<and> ls_names_glm (ex_heap_ls []) 2 True = [''.h'', ''a'', ''b'', ''d'', ''f'']
   \<and> Ls_dusk name_only ex_fs (ex_heap_ls ''/'') ''.'' False False
       = Inr (concat (map (\<lambda>n. n @ [CHR 0x0A]) [''a'', ''b'', ''d'', ''f'']))
   \<and> Ls_glm name_only ex_fs (ex_heap_ls []) [''/home/user'']
       = Some [Line ''a'', Line ''b'', Line ''d'', Line ''f'']
   \<and> Ls_glm name_only ex_fs (ex_heap_ls []) [''-a'', ''/home/user'']
       = Some [Line ''.h'', Line ''a'', Line ''b'', Line ''d'', Line ''f'']
   \<and> Ls_sky name_only ex_fs (ex_heap_ls ''/'') ''.'' False True = Inr ''f d b .h a''"
proof -
  have n1: "map fst (kids (node (ex_heap_ls ''/'') 2)) = [''f'', ''d'', ''b'', ''.h'', ''a'']"
    by (simp add: ex_heap_ls_def ex_defs go_defs)
  have n2: "map fst (kids (node (ex_heap_ls []) 2)) = [''f'', ''d'', ''b'', ''.h'', ''a'']"
    by (simp add: ex_heap_ls_def ex_defs go_defs)
  have so1: "sort [''f'', ''d'', ''b'', ''a''] = [''a'', ''b'', ''d'', ''f'']"
    by (simp add: less_eq_char_def less_char_def)
  have so2: "sort [''f'', ''d'', ''b'', ''.h'', ''a''] = [''.h'', ''a'', ''b'', ''d'', ''f'']"
    by (simp add: less_eq_char_def less_char_def)
  have k1: "ls_names_dusk (ex_heap_ls ''/'') 2 False = [''a'', ''b'', ''d'', ''f'']"
    by (simp add: ls_names_dusk_def n1 HasPrefix_def so1)
  have k2: "ls_names_dusk (ex_heap_ls []) 2 True = [''.h'', ''a'', ''b'', ''d'', ''f'']"
    by (simp add: ls_names_dusk_def n2 HasPrefix_def so2)
  have k3: "ls_names_dusk (ex_heap_ls []) 2 False = [''a'', ''b'', ''d'', ''f'']"
    by (simp add: ls_names_dusk_def n2 HasPrefix_def so1)
  have r1: "resolvePath_dusk ex_fs (ex_heap_ls ''/'') ''.'' = Inr (Some 2)"
    by (simp add: resolvePath_dusk_dot ex_fs_def)
  have t1: "Type (node (ex_heap_ls ''/'') 2) = Directory" "Type (node (ex_heap_ls []) 2) = Directory"
    by (simp_all add: ex_heap_ls_def ex_defs)
  have r2: "ResolvePath_glm ex_fs (ex_heap_ls []) ''/home/user'' = Some (Inr (Some 2))"
    by (simp add: ex_heap_ls_def ex_defs ResolvePath_glm_def GetAbsolutePath_glm_def go_defs)
  have r3: "ResolvePath_sky ex_fs (ex_heap_ls ''/'') ''.'' = Inr 2"
    by (simp add: ex_heap_ls_def ex_defs ResolvePath_sky_def resolve_components_sky_def go_defs)
  have hp: "\<not> HasPrefix ''/home/user'' ''-''" by (simp add: HasPrefix_def)
  have A: "ls_names_glm (ex_heap_ls []) 2 True = ls_names_dusk (ex_heap_ls []) 2 True"
       "ls_names_glm (ex_heap_ls []) 2 False = ls_names_dusk (ex_heap_ls []) 2 False"
    using C8_ls_listing[where h = "ex_heap_ls []" and dir = 2 and a = True and ?h2.0 = "ex_heap_ls []"
            and ?dir2.0 = 2 and p = "''/home/user''" and fs = ex_fs and render = name_only]
          C8_ls_listing[where h = "ex_heap_ls []" and dir = 2 and a = False and ?h2.0 = "ex_heap_ls []"
            and ?dir2.0 = 2 and p = "''/home/user''" and fs = ex_fs and render = name_only]
    by (simp_all add: ls_names_glm_def ls_names_dusk_def sort_names_glm_sort)
  have B: "Ls_dusk name_only ex_fs (ex_heap_ls ''/'') ''.'' False False
       = Inr (concat (map (\<lambda>n. n @ [CHR 0x0A]) [''a'', ''b'', ''d'', ''f'']))"
    using C8_ls_listing[where h = "ex_heap_ls ''/''" and dir = 2 and a = False
            and ?h2.0 = "ex_heap_ls ''/''" and ?dir2.0 = 2 and p = "''.''" and fs = ex_fs
            and render = name_only] r1 t1 k1 by simp
  have C: "Ls_glm name_only ex_fs (ex_heap_ls []) [''/home/user'']
       = Some [Line ''a'', Line ''b'', Line ''d'', Line ''f'']
     \<and> Ls_glm name_only ex_fs (ex_heap_ls []) [''-a'', ''/home/user'']
       = Some [Line ''.h'', Line ''a'', Line ''b'', Line ''d'', Line ''f'']"
    using C8_ls_listing[where h = "ex_heap_ls []" and dir = 2 and a = False
            and ?h2.0 = "ex_heap_ls []" and ?dir2.0 = 2 and p = "''/home/user''" and fs = ex_fs
            and render = name_only] r2 t1 hp A k2 k3 by simp
  have D: "Ls_sky name_only ex_fs (ex_heap_ls ''/'') ''.'' False True = Inr ''f d b .h a''"
    using C8_ls_listing[where h = "ex_heap_ls ''/''" and dir = 2 and a = True
            and ?h2.0 = "ex_heap_ls ''/''" and ?dir2.0 = 2 and p = "''.''" and fs = ex_fs
            and render = name_only] r3 t1 n1 by (simp add: HasPrefix_def)
  show ?thesis using k1 A(1) k2 B C D by simp
qed

section \<open>\<open>rm\<close> without \<open>-r\<close> on a directory\<close>

lemma Rm_glm_one:
  "p \<noteq> ''-r'' \<Longrightarrow> ResolvePath_glm fs h p = Some (Inr (Some t)) \<Longrightarrow>
   Rm_glm fs h [p] now =
     (if Type (node h t) = Directory \<and> kids (node h t) \<noteq> [] then Some (h, [Failed IsADirectory])
      else case Parent (node h t) of
             Some parent \<Rightarrow>
               (case RemoveChild_glm h parent (Name (node h t)) now of
                  Inl e \<Rightarrow> Some (h, [Failed e])
                | Inr h1 \<Rightarrow> Some (h1, []))
           | None \<Rightarrow> Some (h, [Failed CannotRemoveRoot]))"
  by (simp add: Rm_glm_def rm_one_glm_def Let_def split: option.splits sum.splits)

lemma RemoveChild_glm_not_IsADirectory: "RemoveChild_glm h parent name now \<noteq> Inl IsADirectory"
  by (simp add: RemoveChild_glm_def)

lemma Rm_glm_fails_iff:
  assumes "p \<noteq> ''-r''" and "ResolvePath_glm fs h p = Some (Inr (Some t))"
  shows "(\<exists>h'. Rm_glm fs h [p] now = Some (h', [Failed IsADirectory]))
         \<longleftrightarrow> (Type (node h t) = Directory \<and> kids (node h t) \<noteq> [])"
  using RemoveChild_glm_not_IsADirectory[of h _ "Name (node h t)" now]
  by (auto simp: Rm_glm_one[OF assms] split: option.splits sum.splits)

lemma Rm_glm_result:
  assumes "p \<noteq> ''-r''" and "ResolvePath_glm fs h p = Some (Inr (Some t))"
  shows "Rm_glm fs h [p] now =
     Some (if Type (node h t) = Directory \<and> kids (node h t) \<noteq> [] then (h, [Failed IsADirectory])
           else case Parent (node h t) of
                  None \<Rightarrow> (h, [Failed CannotRemoveRoot])
                | Some parent \<Rightarrow>
                    if Type (node h parent) \<noteq> Directory then (h, [Failed NotADirectory])
                    else if lookup (node h parent) (Name (node h t)) = None then (h, [Failed NotFound])
                    else (upd (del_child h parent (Name (node h t))) parent (\<lambda>v. v\<lparr>ModTime := now\<rparr>), []))"
  by (simp add: Rm_glm_one[OF assms] RemoveChild_glm_def split: option.splits)

lemma del_child_detaches:
  "lookup (node (upd (del_child h parent n) parent (\<lambda>v. v\<lparr>ModTime := now\<rparr>)) parent) n = None"
  by (simp add: del_child_def node_upd lookup_def kids_def map_of_map_delete split: option.splits)

lemma del_child_frame:
  "a \<noteq> parent \<Longrightarrow> node (upd (del_child h parent n) parent (\<lambda>v. v\<lparr>ModTime := now\<rparr>)) a = node h a"
  by (simp add: del_child_def node_upd split: option.splits)

lemma Rm_sky_directory:
  "p \<noteq> [] \<Longrightarrow> ResolvePath_sky fs h p = Inr t \<Longrightarrow> Type (node h t) = Directory \<Longrightarrow>
   Rm_sky fuel fs h p False =
     Some (Inl (if t = Root fs \<or> Parent (node h t) = None then CannotRemoveRoot else IsADirectory))"
  by (auto simp: Rm_sky_def)

lemma cmdRm_grok_directory:
  "p \<noteq> ''-r'' \<Longrightarrow> p \<noteq> ''-rf'' \<Longrightarrow> ResolvePath_grok fs h p = Inr (Some t) \<Longrightarrow>
   Type (node h t) = Directory \<Longrightarrow> cmdRm_grok fs h [p] = (h, Some IsADirectory)"
  by (simp add: cmdRm_grok_def)

text \<open>
  C2, as stated: \<open>rm\<close> without \<open>-r\<close> succeeds on a directory with no children and detaches
  it. In sonoma-sky-alpha and grok-code-fast-1 \<open>rm d\<close> on the empty directory
  \<open>/home/user/d\<close> fails with \<open>is a directory\<close>, and the store is as before.
\<close>

theorem C2_rm_empty_directory_fails:
  "ResolvePath_sky ex_fs (ex_heap ''/'' [] []) ''d'' = Inr 4
   \<and> Type (node (ex_heap ''/'' [] []) 4) = Directory
   \<and> kids (node (ex_heap ''/'' [] []) 4) = []
   \<and> Rm_sky 1 ex_fs (ex_heap ''/'' [] []) ''d'' False = Some (Inl IsADirectory)
   \<and> cmdRm_grok ex_fs (ex_heap ''/'' [] []) [''d''] = (ex_heap ''/'' [] [], Some IsADirectory)"
  by (simp add: ex_defs Rm_sky_def ResolvePath_sky_def resolve_components_sky_def cmdRm_grok_def
      ResolvePath_grok_def go_defs)

text \<open>
  C2, amended. glm-4.5: for an argument other than the flag \<open>-r\<close> that resolves to a node,
  \<open>rm\<close> without \<open>-r\<close> prints its \<open>Is a directory\<close> error exactly when the node is a directory
  with at least one child, and then changes nothing. Otherwise it prints \<open>cannot remove root
  directory\<close> when the node has no parent pointer, the error of \<open>RemoveChild\<close> when the
  parent is not a directory or holds no entry under the node's name, changing nothing in
  both cases; and else, so for a directory with no children that its parent holds under its
  name, it prints nothing, deletes that entry from the parent and sets the parent's
  modification time, every other node staying as it is. sonoma-sky-alpha: for a non-empty
  path that resolves to a directory, \<open>Rm\<close> without \<open>recursive\<close> fails whether the directory
  has children or not, and returns no new store: with \<open>cannot remove root directory\<close> when
  the directory is the root or has no parent pointer, with \<open>is a directory\<close> otherwise.
  grok-code-fast-1: for one argument other than the flags \<open>-r\<close> and \<open>-rf\<close> that resolves to
  a directory, \<open>cmdRm\<close> returns the error \<open>Is a directory\<close> and the store as it was, whether
  the directory has children or not.
\<close>

theorem C2_rm_without_recursive:
  "(p \<noteq> ''-r'' \<longrightarrow> ResolvePath_glm fs h p = Some (Inr (Some t)) \<longrightarrow>
      ((\<exists>h'. Rm_glm fs h [p] now = Some (h', [Failed IsADirectory]))
         \<longleftrightarrow> (Type (node h t) = Directory \<and> kids (node h t) \<noteq> []))
      \<and> Rm_glm fs h [p] now =
          Some (if Type (node h t) = Directory \<and> kids (node h t) \<noteq> [] then (h, [Failed IsADirectory])
                else case Parent (node h t) of
                       None \<Rightarrow> (h, [Failed CannotRemoveRoot])
                     | Some parent \<Rightarrow>
                         if Type (node h parent) \<noteq> Directory then (h, [Failed NotADirectory])
                         else if lookup (node h parent) (Name (node h t)) = None
                         then (h, [Failed NotFound])
                         else (upd (del_child h parent (Name (node h t))) parent
                                 (\<lambda>v. v\<lparr>ModTime := now\<rparr>), [])))
   \<and> lookup (node (upd (del_child h d n) d (\<lambda>v. v\<lparr>ModTime := now\<rparr>)) d) n = None
   \<and> (a \<noteq> d \<longrightarrow> node (upd (del_child h d n) d (\<lambda>v. v\<lparr>ModTime := now\<rparr>)) a = node h a)
   \<and> (p \<noteq> [] \<longrightarrow> ResolvePath_sky fs h p = Inr t \<longrightarrow> Type (node h t) = Directory \<longrightarrow>
        Rm_sky fuel fs h p False =
          Some (Inl (if t = Root fs \<or> Parent (node h t) = None then CannotRemoveRoot
                     else IsADirectory)))
   \<and> (p \<noteq> ''-r'' \<longrightarrow> p \<noteq> ''-rf'' \<longrightarrow> ResolvePath_grok fs h p = Inr (Some t) \<longrightarrow>
      Type (node h t) = Directory \<longrightarrow> cmdRm_grok fs h [p] = (h, Some IsADirectory))"
proof (intro conjI impI)
  assume a: "p \<noteq> ''-r''" "ResolvePath_glm fs h p = Some (Inr (Some t))"
  show "(\<exists>h'. Rm_glm fs h [p] now = Some (h', [Failed IsADirectory]))
         \<longleftrightarrow> (Type (node h t) = Directory \<and> kids (node h t) \<noteq> [])"
    by (rule Rm_glm_fails_iff[OF a])
  show "Rm_glm fs h [p] now =
          Some (if Type (node h t) = Directory \<and> kids (node h t) \<noteq> [] then (h, [Failed IsADirectory])
                else case Parent (node h t) of
                       None \<Rightarrow> (h, [Failed CannotRemoveRoot])
                     | Some parent \<Rightarrow>
                         if Type (node h parent) \<noteq> Directory then (h, [Failed NotADirectory])
                         else if lookup (node h parent) (Name (node h t)) = None
                         then (h, [Failed NotFound])
                         else (upd (del_child h parent (Name (node h t))) parent
                                 (\<lambda>v. v\<lparr>ModTime := now\<rparr>), []))"
    by (rule Rm_glm_result[OF a])
next
  show "lookup (node (upd (del_child h d n) d (\<lambda>v. v\<lparr>ModTime := now\<rparr>)) d) n = None"
    by (rule del_child_detaches)
next
  show "node (upd (del_child h d n) d (\<lambda>v. v\<lparr>ModTime := now\<rparr>)) a = node h a" if "a \<noteq> d"
    by (rule del_child_frame[OF that])
next
  show "Rm_sky fuel fs h p False =
          Some (Inl (if t = Root fs \<or> Parent (node h t) = None then CannotRemoveRoot
                     else IsADirectory))"
    if "p \<noteq> []" "ResolvePath_sky fs h p = Inr t" "Type (node h t) = Directory"
    by (rule Rm_sky_directory[OF that])
next
  show "cmdRm_grok fs h [p] = (h, Some IsADirectory)"
    if "p \<noteq> ''-r''" "p \<noteq> ''-rf''" "ResolvePath_grok fs h p = Inr (Some t)"
       "Type (node h t) = Directory"
    by (rule cmdRm_grok_directory[OF that])
qed

theorem C2_rm_without_recursive_witness:
  "Rm_glm ex_fs (ex_heap [] [] []) [''/home/user''] 7 = Some (ex_heap [] [] [], [Failed IsADirectory])
   \<and> Rm_glm ex_fs (ex_heap [] [] []) [''/home/user/d''] 7
        = Some (upd (del_child (ex_heap [] [] []) 2 ''d'') 2 (\<lambda>v. v\<lparr>ModTime := 7\<rparr>), [])
   \<and> lookup (node (upd (del_child (ex_heap [] [] []) 2 ''d'') 2 (\<lambda>v. v\<lparr>ModTime := 7\<rparr>)) 2) ''d'' = None
   \<and> node (upd (del_child (ex_heap [] [] []) 2 ''d'') 2 (\<lambda>v. v\<lparr>ModTime := 7\<rparr>)) 3
        = node (ex_heap [] [] []) 3
   \<and> Rm_sky 1 ex_fs (ex_heap ''/'' [] []) ''d'' False = Some (Inl IsADirectory)
   \<and> Rm_sky 1 ex_fs (ex_heap ''/'' [] []) ''/'' False = Some (Inl CannotRemoveRoot)
   \<and> cmdRm_grok ex_fs (ex_heap ''/'' [] []) [''d''] = (ex_heap ''/'' [] [], Some IsADirectory)"
proof -
  let ?g = "ex_heap [] [] []" and ?s = "ex_heap ''/'' [] []"
  have g1: "ResolvePath_glm ex_fs ?g ''/home/user'' = Some (Inr (Some 2))"
    by (simp add: ex_defs ResolvePath_glm_def GetAbsolutePath_glm_def go_defs)
  have g2: "Type (node ?g 2) = Directory \<and> kids (node ?g 2) \<noteq> []"
    by (simp add: ex_defs go_defs)
  have g3: "ResolvePath_glm ex_fs ?g ''/home/user/d'' = Some (Inr (Some 4))"
    by (simp add: ex_defs ResolvePath_glm_def GetAbsolutePath_glm_def go_defs)
  have g4: "kids (node ?g 4) = []" "Parent (node ?g 4) = Some 2" "Type (node ?g 2) = Directory"
    "lookup (node ?g 2) (Name (node ?g 4)) \<noteq> None" "Name (node ?g 4) = ''d''"
    by (simp_all add: ex_defs go_defs)
  have s1: "ResolvePath_sky ex_fs ?s ''d'' = Inr 4"
    by (simp add: ex_defs ResolvePath_sky_def resolve_components_sky_def go_defs)
  have s2: "4 \<noteq> Root ex_fs" "Parent (node ?s 4) \<noteq> None" "Type (node ?s 4) = Directory"
    by (simp_all add: ex_defs)
  have s3: "ResolvePath_sky ex_fs ?s ''/'' = Inr 0"
    by (simp add: ex_defs ResolvePath_sky_def resolve_components_sky_def go_defs)
  have s4: "Root ex_fs = 0" "Type (node ?s 0) = Directory"
    by (simp_all add: ex_defs)
  have k1: "ResolvePath_grok ex_fs ?s ''d'' = Inr (Some 4)"
    by (simp add: ex_defs ResolvePath_grok_def go_defs)
  have A: "Rm_glm ex_fs ?g [''/home/user''] 7 = Some (?g, [Failed IsADirectory])"
    using C2_rm_without_recursive[where p = "''/home/user''" and fs = ex_fs and h = ?g and t = 2
            and now = 7 and d = 2 and n = "''d''" and a = 3 and fuel = 1] g1 g2 by simp
  have B: "Rm_glm ex_fs ?g [''/home/user/d''] 7
             = Some (upd (del_child ?g 2 ''d'') 2 (\<lambda>v. v\<lparr>ModTime := 7\<rparr>), [])
           \<and> lookup (node (upd (del_child ?g 2 ''d'') 2 (\<lambda>v. v\<lparr>ModTime := 7\<rparr>)) 2) ''d'' = None
           \<and> node (upd (del_child ?g 2 ''d'') 2 (\<lambda>v. v\<lparr>ModTime := 7\<rparr>)) 3 = node ?g 3"
    using C2_rm_without_recursive[where p = "''/home/user/d''" and fs = ex_fs and h = ?g and t = 4
            and now = 7 and d = 2 and n = "''d''" and a = 3 and fuel = 1] g3 g4 by simp
  have C: "Rm_sky 1 ex_fs ?s ''d'' False = Some (Inl IsADirectory)"
    using C2_rm_without_recursive[where p = "''d''" and fs = ex_fs and h = ?s and t = 4
            and now = 7 and d = 2 and n = "''d''" and a = 3 and fuel = 1] s1 s2 by simp
  have C': "Rm_sky 1 ex_fs ?s ''/'' False = Some (Inl CannotRemoveRoot)"
    using C2_rm_without_recursive[where p = "''/''" and fs = ex_fs and h = ?s and t = 0
            and now = 7 and d = 2 and n = "''d''" and a = 3 and fuel = 1] s3 s4 by simp
  have D: "cmdRm_grok ex_fs ?s [''d''] = (?s, Some IsADirectory)"
    using C2_rm_without_recursive[where p = "''d''" and fs = ex_fs and h = ?s and t = 4
            and now = 7 and d = 2 and n = "''d''" and a = 3 and fuel = 1] k1 s2 by simp
  show ?thesis using A B C C' D by (intro conjI) simp_all
qed

section \<open>The root under \<open>rm\<close> and \<open>mv\<close>\<close>

lemma grok_start: "NewFileSystem_grok now =
  (\<lparr>Root = 0, CurrentDir = 2, PrevDir = None\<rparr>,
   \<lparr>cells = (\<lambda>_. zero_file)
      (0 := \<lparr>Name = ''/'', Type = Directory, Content = [], Children = Some [(''home'', 1)],
             Parent = Some 0, Permissions = 493, ModTime = now, Size = 0\<rparr>,
       1 := \<lparr>Name = ''home'', Type = Directory, Content = [], Children = Some [(''user'', 2)],
             Parent = Some 0, Permissions = 493, ModTime = now, Size = 0\<rparr>,
       2 := \<lparr>Name = ''user'', Type = Directory, Content = [], Children = Some [],
             Parent = Some 1, Permissions = 493, ModTime = now, Size = 0\<rparr>),
    next_free = 3\<rparr>)"
  by (simp add: NewFileSystem_grok_def alloc_def upd_def empty_heap_def Let_def
      kids_def numeral_2_eq_2 numeral_3_eq_3 fun_upd_twist)

text \<open>
  C1. The claim: \<open>rm\<close>, \<open>rmdir\<close> and \<open>mv\<close> on a path that resolves to the root return an
  error and leave the tree unchanged, and the root is never removed, renamed or replaced.

  grok-code-fast-1 in the state a fresh session starts in. \<open>rm /\<close> fails, the root being
  a directory. \<open>rm -r /\<close> returns no error: the root is its own parent, so the command
  deletes the key \<open>/\<close> from the root's own map, where it is not. \<open>mv / x\<close> returns no
  error either: it renames the root to \<open>x\<close>, makes \<open>/home/user\<close> its parent and enters it
  in the map of \<open>/home/user\<close>, so the root has become a child of its own grandchild.
\<close>

theorem C1_grok_root_not_protected:
  "ResolvePath_grok (fst (NewFileSystem_grok 0)) (snd (NewFileSystem_grok 0)) ''/'' = Inr (Some 0)
   \<and> Root (fst (NewFileSystem_grok 0)) = 0
   \<and> cmdRm_grok (fst (NewFileSystem_grok 0)) (snd (NewFileSystem_grok 0)) [''/'']
       = (snd (NewFileSystem_grok 0), Some IsADirectory)
   \<and> cmdRm_grok (fst (NewFileSystem_grok 0)) (snd (NewFileSystem_grok 0)) [''-r'', ''/'']
       = (snd (NewFileSystem_grok 0), None)
   \<and> snd (cmdMv_grok (fst (NewFileSystem_grok 0)) (snd (NewFileSystem_grok 0)) [''/'', ''x''] 7) = None
   \<and> Name (node (fst (cmdMv_grok (fst (NewFileSystem_grok 0)) (snd (NewFileSystem_grok 0)) [''/'', ''x''] 7)) 0)
       = ''x''
   \<and> Parent (node (fst (cmdMv_grok (fst (NewFileSystem_grok 0)) (snd (NewFileSystem_grok 0)) [''/'', ''x''] 7)) 0)
       = Some 2
   \<and> lookup (node (fst (cmdMv_grok (fst (NewFileSystem_grok 0)) (snd (NewFileSystem_grok 0)) [''/'', ''x''] 7)) 2) ''x''
       = Some 0"
  by (simp add: grok_start cmdRm_grok_def cmdMv_grok_def ResolvePath_grok_def getParentPath_grok_def
      getBaseName_grok_def go_defs fun_eq_iff)

section \<open>Recursive removal\<close>

text \<open>
  C3. The claim: after a successful \<open>rm -r\<close> of a directory every node outside the removed
  subtree is unchanged, and the other entries of its parent are still present.

  \<open>rm -r d\<close> in \<open>/home/user\<close>, which also holds the file \<open>x\<close> and the directory \<open>s\<close>, while \<open>d\<close>
  holds a file \<open>x\<close> and a directory \<open>s\<close> of its own. sonoma-sky-alpha: \<open>deleteRecursive\<close>
  deletes the names of the children of \<open>d\<close> from the map of the parent of \<open>d\<close>, so
  \<open>/home/user\<close> loses \<open>x\<close> and \<open>s\<close> with \<open>d\<close>. sonoma-dusk-alpha: \<open>Rm\<close> removes the
  subdirectory by calling itself on the bare name \<open>s\<close>, which resolves against the
  current directory, so \<open>/home/user\<close> loses its own \<open>s\<close> with \<open>d\<close>.
\<close>

theorem C3_rm_recursive_removes_siblings:
  "lookup (node ex_heap_rm 2) ''x'' = Some 4
   \<and> lookup (node ex_heap_rm 2) ''s'' = Some 5
   \<and> ResolvePath_sky ex_fs ex_heap_rm ''d'' = Inr 3
   \<and> Rm_sky 3 ex_fs ex_heap_rm ''d'' True \<noteq> None
   \<and> \<not> isl (the (Rm_sky 3 ex_fs ex_heap_rm ''d'' True))
   \<and> kids (node (projr (the (Rm_sky 3 ex_fs ex_heap_rm ''d'' True))) 2) = []
   \<and> resolvePath_dusk ex_fs ex_heap_rm ''d'' = Inr (Some 3)
   \<and> Rm_dusk 3 ex_fs ex_heap_rm ''d'' True \<noteq> None
   \<and> \<not> isl (the (Rm_dusk 3 ex_fs ex_heap_rm ''d'' True))
   \<and> kids (node (projr (the (Rm_dusk 3 ex_fs ex_heap_rm ''d'' True))) 2) = [(''x'', 4)]"
  by (simp add: ex_heap_rm_def ex_defs Rm_sky_def ResolvePath_sky_def resolve_components_sky_def
      resolvePath_dusk_def go_defs numeral_3_eq_3)

end
